theory Spec2Isabelle
  imports Complex_Main "HOL-Library.Sublist"
begin

section \<open>JavaScript values used by the dashboard\<close>

text \<open>
  Strings are lists of 8-bit code units. \<open>String.prototype.trim\<close> removes the
  white space of that range (TAB, LF, VT, FF, CR, SP, NBSP), \<open>toLowerCase\<close> maps
  \<open>A\<close>--\<open>Z\<close> and the Latin-1 capitals to their small letters, \<open>includes\<close> is
  contiguous containment and \<open>startsWith\<close> is the prefix test.
\<close>

definition isWhiteSpace :: "char \<Rightarrow> bool" where
  "isWhiteSpace c = ((of_char c :: nat) \<in> {9, 10, 11, 12, 13, 32, 160})"

definition trim :: "string \<Rightarrow> string" where
  "trim s = rev (dropWhile isWhiteSpace (rev (dropWhile isWhiteSpace s)))"

definition isUpperCase :: "char \<Rightarrow> bool" where
  "isUpperCase c =
     (let n = (of_char c :: nat)
      in (65 \<le> n \<and> n \<le> 90) \<or> (192 \<le> n \<and> n \<le> 222 \<and> n \<noteq> 215))"

definition toLowerChar :: "char \<Rightarrow> char" where
  "toLowerChar c =
     (if isUpperCase c
      then Char (digit0 c) (digit1 c) (digit2 c) (digit3 c) (digit4 c) True (digit6 c) (digit7 c)
      else c)"

definition toLowerCase :: "string \<Rightarrow> string" where
  "toLowerCase s = map toLowerChar s"

definition includes_str :: "string \<Rightarrow> string \<Rightarrow> bool" where
  "includes_str s needle = sublist needle s"

definition startsWith :: "string \<Rightarrow> string \<Rightarrow> bool" where
  "startsWith s p = prefix p s"

text \<open>
  Whatever a \<open>catch\<close> clause receives: whether it is an \<open>Error\<close> instance, its
  \<open>message\<close> and the HTTP status of its \<open>response\<close>, when it has them.
\<close>

datatype thrown = Thrown (isErrorInstance: bool) (errMessage: "string option")
  (responseStatus: "nat option")

text \<open>JSON documents: response bodies and the parsed content of the storage key.\<close>

datatype json = JNull | JBool bool | JNum rat | JStr string
  | JArr "json list" | JObj "(string \<times> json) list"

fun truthy :: "json \<Rightarrow> bool" where
  "truthy JNull = False"
| "truthy (JBool b) = b"
| "truthy (JNum n) = (n \<noteq> 0)"
| "truthy (JStr s) = (s \<noteq> [])"
| "truthy (JArr xs) = True"
| "truthy (JObj kvs) = True"

fun json_member :: "json \<Rightarrow> string \<Rightarrow> json option" where
  "json_member (JObj kvs) k = map_of kvs k"
| "json_member j k = None"

datatype effect =
    ConsoleLog string
  | ConsoleWarn string
  | ConsoleError string
  | HorizonLoadAccount string

section \<open>Wallet context: connection state and balance fetch\<close>

datatype network = TESTNET

record WalletState =
  address :: "string option"
  isAuthorized :: bool
  network :: network
  isLoading :: bool
  error :: "string option"
  balance :: "string option"
  isWalletLocked :: bool

definition initialState :: WalletState where
  "initialState =
     \<lparr>address = None, isAuthorized = False, network = TESTNET, isLoading = False,
      error = None, balance = None, isWalletLocked = False\<rparr>"

text \<open>One entry of \<open>account.balances\<close> as Horizon returns it.\<close>

record BalanceLine =
  asset_type :: string
  line_balance :: string

type_synonym horizon = "string \<Rightarrow> thrown + BalanceLine list"

text \<open>
  \<open>fetchBalance\<close>: the state it leaves (through \<open>setState(prev => ...)\<close>) and the
  console output and network calls it makes, in order. \<open>None\<close> is a null or
  undefined key. \<open>loadAccount\<close> is the ledger's account lookup: \<open>Inl\<close> when it
  rejects, \<open>Inr\<close> the balance entries.
\<close>

definition fetchBalance ::
  "string option \<Rightarrow> horizon \<Rightarrow> WalletState \<Rightarrow> WalletState \<times> effect list" where
  "fetchBalance publicKey loadAccount prev =
     (case publicKey of
        None \<Rightarrow> (prev, [ConsoleWarn ''[fetchBalance] Invalid public key''])
      | Some pk \<Rightarrow>
          if pk = [] \<or> trim pk = []
          then (prev, [ConsoleWarn ''[fetchBalance] Invalid public key''])
          else
            (let pre = [ConsoleLog ''[fetchBalance] Fetching for:'', HorizonLoadAccount pk]
             in case loadAccount pk of
                  Inr balances \<Rightarrow>
                    (case find (\<lambda>b. asset_type b = ''native'') balances of
                       Some nativeBalance \<Rightarrow>
                         (prev\<lparr>balance := Some (line_balance nativeBalance)\<rparr>,
                          pre @ [ConsoleLog ''[fetchBalance] Balance:''])
                     | None \<Rightarrow> (prev\<lparr>balance := Some ''0''\<rparr>, pre))
                | Inl err \<Rightarrow>
                    (if responseStatus err = Some 404
                     then (prev\<lparr>balance := Some ''10000.00''\<rparr>,
                           pre @ [ConsoleError ''[fetchBalance] Error:'',
                                  ConsoleLog ''[fetchBalance] Unfunded account, using 10,000 XLM''])
                     else (prev\<lparr>balance := Some ''10000.00''\<rparr>,
                           pre @ [ConsoleError ''[fetchBalance] Error:'']))))"

text \<open>The guard of \<open>fetchBalance\<close>, \<open>!publicKey || publicKey.trim() === ''\<close>, by itself.\<close>

definition invalidPublicKey :: "string option \<Rightarrow> bool" where
  "invalidPublicKey publicKey =
     (case publicKey of None \<Rightarrow> True | Some pk \<Rightarrow> pk = [] \<or> trim pk = [])"

definition networkCalls :: "effect list \<Rightarrow> string list" where
  "networkCalls es = concat (map (\<lambda>e. case e of HorizonLoadAccount a \<Rightarrow> [a] | _ \<Rightarrow> []) es)"

definition warnings :: "effect list \<Rightarrow> string list" where
  "warnings es = concat (map (\<lambda>e. case e of ConsoleWarn m \<Rightarrow> [m] | _ \<Rightarrow> []) es)"

section \<open>Wallet context: the controller, its timers and its pending calls\<close>

text \<open>
  The provider component holds the connection state, the \<open>isClientReady\<close> flag, the
  ref to the polling interval, and through the browser: the live intervals (those
  that run \<open>pollForAddress\<close>, and the one of the monitor effect), the next handle
  \<open>setInterval\<close> returns, the parsed content of the storage key (\<open>None\<close> when the
  key is absent), and the calls that were made and have not resolved yet.
\<close>

datatype task =
    AwaitIsConnected
  | AwaitRequestAccess
  | AwaitPollAddress
  | AwaitBalance string bool
  | AwaitReconnectAddress json
  | AwaitMonitorConnected "string option"
  | AwaitMonitorAddress "string option"

record Controller =
  state :: WalletState
  isClientReady :: bool
  pollingIntervalRef :: "nat option"
  pollIntervals :: "nat list"
  monitorInterval :: "nat option"
  nextHandle :: nat
  storedConnection :: "json option"
  pending :: "task list"

definition initialController :: "json option \<Rightarrow> Controller" where
  "initialController stored =
     \<lparr>state = initialState, isClientReady = False, pollingIntervalRef = None,
      pollIntervals = [], monitorInterval = None, nextHandle = 1,
      storedConnection = stored, pending = []\<rparr>"

text \<open>\<open>x || null\<close> on an optional string, and the truth value of one.\<close>

definition orNull :: "string option \<Rightarrow> string option" where
  "orNull x = (case x of Some s \<Rightarrow> if s = [] then None else Some s | None \<Rightarrow> None)"

definition truthyString :: "string option \<Rightarrow> bool" where
  "truthyString x = (case x of Some s \<Rightarrow> s \<noteq> [] | None \<Rightarrow> False)"

text \<open>\<open>publicKey === savedAddress\<close>, the left side a string or null.\<close>

fun strictEquals :: "string option \<Rightarrow> json \<Rightarrow> bool" where
  "strictEquals None JNull = True"
| "strictEquals (Some s) (JStr t) = (s = t)"
| "strictEquals x j = False"

definition clearInterval :: "nat \<Rightarrow> Controller \<Rightarrow> Controller" where
  "clearInterval h c =
     c\<lparr>pollIntervals := removeAll h (pollIntervals c),
       monitorInterval := (if monitorInterval c = Some h then None else monitorInterval c)\<rparr>"

definition spawn :: "task \<Rightarrow> Controller \<Rightarrow> Controller" where
  "spawn t c = c\<lparr>pending := pending c @ [t]\<rparr>"

definition setState :: "(WalletState \<Rightarrow> WalletState) \<Rightarrow> Controller \<Rightarrow> Controller" where
  "setState f c = c\<lparr>state := f (state c)\<rparr>"

text \<open>
  \<open>startPolling\<close>: clear the interval the ref holds (a handle is truthy when it is
  not 0), run \<open>pollForAddress\<close> once, which calls \<open>getAddress\<close> and waits, then
  start the 1000 ms interval and store its handle in the ref.
\<close>

definition startPolling :: "Controller \<Rightarrow> Controller" where
  "startPolling c =
     (let c1 = (case pollingIntervalRef c of
                  Some h \<Rightarrow> if h \<noteq> 0 then clearInterval h c else c
                | None \<Rightarrow> c);
          c2 = spawn AwaitPollAddress c1;
          h' = nextHandle c2
      in c2\<lparr>pollIntervals := pollIntervals c2 @ [h'],
            pollingIntervalRef := Some h',
            nextHandle := h' + 1\<rparr>)"

definition stopPolling :: "Controller \<Rightarrow> Controller" where
  "stopPolling c =
     (case pollingIntervalRef c of
        Some h \<Rightarrow> if h \<noteq> 0 then (clearInterval h c)\<lparr>pollingIntervalRef := None\<rparr> else c
      | None \<Rightarrow> c)"

definition persistConnection :: "string \<Rightarrow> Controller \<Rightarrow> Controller" where
  "persistConnection publicKey c =
     c\<lparr>storedConnection :=
         Some (JObj [(''address'', JStr publicKey), (''isAuthorized'', JBool True)])\<rparr>"

text \<open>
  A call of \<open>fetchBalance\<close> from the controller: an invalid key returns at once,
  otherwise the ledger lookup is pending. \<open>persist\<close> says that the caller awaits the
  call and writes the storage key afterwards (\<open>pollForAddress\<close> does, the
  auto-reconnect does not).
\<close>

definition callFetchBalance :: "string \<Rightarrow> bool \<Rightarrow> Controller \<Rightarrow> Controller" where
  "callFetchBalance publicKey persist c =
     (if invalidPublicKey (Some publicKey)
      then (if persist then persistConnection publicKey c else c)
      else spawn (AwaitBalance publicKey persist) c)"

definition balanceResolved ::
  "string \<Rightarrow> bool \<Rightarrow> thrown + BalanceLine list \<Rightarrow> Controller \<Rightarrow> Controller" where
  "balanceResolved publicKey persist outcome c =
     (let c1 = setState (\<lambda>prev. fst (fetchBalance (Some publicKey) (\<lambda>_. outcome) prev)) c
      in if persist then persistConnection publicKey c1 else c1)"

text \<open>\<open>pollForAddress\<close> after \<open>getAddress\<close> has resolved (\<open>Inr\<close>) or rejected (\<open>Inl\<close>).\<close>

definition pollForAddress :: "thrown + string option \<Rightarrow> Controller \<Rightarrow> Controller" where
  "pollForAddress addressResponse c =
     (case addressResponse of
        Inl err \<Rightarrow> c
      | Inr resp \<Rightarrow>
          (case orNull resp of
             None \<Rightarrow> c
           | Some publicKey \<Rightarrow>
               if trim publicKey \<noteq> [] \<and> startsWith publicKey ''G''
               then
                 (let c1 = stopPolling c;
                      c2 = setState (\<lambda>prev. prev\<lparr>address := Some publicKey,
                                                   isAuthorized := True,
                                                   isWalletLocked := False,
                                                   error := None,
                                                   isLoading := False\<rparr>) c1
                  in callFetchBalance publicKey True c2)
               else c))"

text \<open>\<open>connect\<close>, in the three stretches between its awaits, and its \<open>catch\<close> clause.\<close>

definition connect :: "Controller \<Rightarrow> Controller" where
  "connect c =
     spawn AwaitIsConnected (setState (\<lambda>prev. prev\<lparr>isLoading := True, error := None\<rparr>) c)"

definition connectCatch :: "thrown \<Rightarrow> Controller \<Rightarrow> Controller" where
  "connectCatch err c =
     setState (\<lambda>prev. prev\<lparr>
         isLoading := False,
         error := Some (case errMessage err of
                          Some m \<Rightarrow> if m \<noteq> [] then m else ''Failed to connect wallet''
                        | None \<Rightarrow> ''Failed to connect wallet''),
         isWalletLocked := (case errMessage err of
                              Some m \<Rightarrow> includes_str m ''locked'' \<or> includes_str m ''denied''
                            | None \<Rightarrow> False)\<rparr>)
       (stopPolling c)"

definition connectAfterIsConnected :: "thrown + bool \<Rightarrow> Controller \<Rightarrow> Controller" where
  "connectAfterIsConnected outcome c =
     (case outcome of
        Inl err \<Rightarrow> connectCatch err c
      | Inr isConn \<Rightarrow>
          if \<not> isConn
          then connectCatch (Thrown True (Some ''Freighter wallet is not installed'') None) c
          else spawn AwaitRequestAccess c)"

definition connectAfterRequestAccess :: "thrown + unit \<Rightarrow> Controller \<Rightarrow> Controller" where
  "connectAfterRequestAccess outcome c =
     (case outcome of Inl err \<Rightarrow> connectCatch err c | Inr u \<Rightarrow> startPolling c)"

definition disconnect :: "Controller \<Rightarrow> Controller" where
  "disconnect c = (setState (\<lambda>_. initialState) (stopPolling c))\<lparr>storedConnection := None\<rparr>"

text \<open>
  The monitor: \<open>checkConnection\<close> sees the address the effect closed over. Its two
  updates of the state, and the whole function on the two answers of the extension.
\<close>

definition monitorAfterIsConnected ::
  "string option \<Rightarrow> bool \<Rightarrow> WalletState \<Rightarrow> WalletState" where
  "monitorAfterIsConnected captured isConn prev =
     (if \<not> isConn \<and> truthyString captured
      then prev\<lparr>error := Some ''Wallet disconnected'', isWalletLocked := True\<rparr>
      else prev)"

definition monitorAfterGetAddress ::
  "string option \<Rightarrow> string option \<Rightarrow> WalletState \<Rightarrow> WalletState" where
  "monitorAfterGetAddress captured resp prev =
     (if orNull resp = None \<and> truthyString captured
      then prev\<lparr>isWalletLocked := True, error := Some ''Wallet locked''\<rparr>
      else prev)"

definition checkConnection ::
  "string option \<Rightarrow> thrown + bool \<Rightarrow> thrown + string option \<Rightarrow> WalletState \<Rightarrow> WalletState" where
  "checkConnection captured isConnectedOutcome getAddressOutcome prev =
     (case isConnectedOutcome of
        Inl err \<Rightarrow> prev
      | Inr isConn \<Rightarrow>
          (let s1 = monitorAfterIsConnected captured isConn prev
           in case getAddressOutcome of
                Inl err \<Rightarrow> s1
              | Inr resp \<Rightarrow> monitorAfterGetAddress captured resp s1))"

text \<open>
  The same in the controller: after \<open>isConnected\<close> resolves the call of
  \<open>getAddress\<close> is pending; a rejection of either ends the check silently.
\<close>

definition monitorConnectedResolved ::
  "string option \<Rightarrow> thrown + bool \<Rightarrow> Controller \<Rightarrow> Controller" where
  "monitorConnectedResolved captured outcome c =
     (case outcome of
        Inl err \<Rightarrow> c
      | Inr isConn \<Rightarrow>
          spawn (AwaitMonitorAddress captured)
            (setState (monitorAfterIsConnected captured isConn) c))"

definition monitorAddressResolved ::
  "string option \<Rightarrow> thrown + string option \<Rightarrow> Controller \<Rightarrow> Controller" where
  "monitorAddressResolved captured outcome c =
     (case outcome of
        Inl err \<Rightarrow> c
      | Inr resp \<Rightarrow> setState (monitorAfterGetAddress captured resp) c)"

text \<open>
  The monitor effect has the dependencies \<open>isClientReady\<close> and \<open>state.address\<close>:
  when one of them changed in a step, the clean-up of the last run clears its
  interval, and the effect starts a 2000 ms interval if the client is ready and
  there is an address.
\<close>

definition runMonitorEffect :: "Controller \<Rightarrow> Controller \<Rightarrow> Controller" where
  "runMonitorEffect before c =
     (if isClientReady before = isClientReady c \<and> address (state before) = address (state c)
      then c
      else
        (let c1 = (case monitorInterval c of Some h \<Rightarrow> clearInterval h c | None \<Rightarrow> c)
         in if \<not> isClientReady c1 \<or> \<not> truthyString (address (state c1))
            then c1
            else c1\<lparr>monitorInterval := Some (nextHandle c1),
                     nextHandle := nextHandle c1 + 1\<rparr>))"

text \<open>
  The auto-reconnect effect runs when the client becomes ready: with a stored
  connection whose \<open>address\<close> is truthy it asks the extension for the address.
  A stored document without that member has no saved address.
\<close>

definition clientReady :: "Controller \<Rightarrow> Controller" where
  "clientReady c =
     (let c1 = c\<lparr>isClientReady := True\<rparr>
      in case storedConnection c1 of
           None \<Rightarrow> c1
         | Some doc \<Rightarrow>
             (case json_member doc ''address'' of
                None \<Rightarrow> c1
              | Some savedAddress \<Rightarrow>
                  if truthy savedAddress then spawn (AwaitReconnectAddress savedAddress) c1
                  else c1))"

definition autoReconnect :: "json \<Rightarrow> thrown + string option \<Rightarrow> Controller \<Rightarrow> Controller" where
  "autoReconnect savedAddress addressResponse c =
     (case addressResponse of
        Inl err \<Rightarrow> startPolling (setState (\<lambda>prev. prev\<lparr>isWalletLocked := True\<rparr>) c)
      | Inr resp \<Rightarrow>
          (let publicKey = orNull resp
           in if strictEquals publicKey savedAddress
              then
                (let c1 = setState (\<lambda>prev. prev\<lparr>address := publicKey,
                                                   isAuthorized := True,
                                                   isWalletLocked := False\<rparr>) c
                 in case publicKey of
                      Some pk \<Rightarrow> callFetchBalance pk False c1
                    | None \<Rightarrow> c1)
              else startPolling c))"

text \<open>
  What can happen to the controller. A timer fires only while it is live, and a
  call resolves only when it was made; \<open>None\<close> says the event cannot happen.
\<close>

datatype event =
    ClientReady
  | Connect
  | RefreshConnection
  | Disconnect
  | IsConnectedResolved "thrown + bool"
  | RequestAccessResolved "thrown + unit"
  | PollTick nat
  | PollAddressResolved "thrown + string option"
  | BalanceResolved string bool "thrown + BalanceLine list"
  | ReconnectAddressResolved json "thrown + string option"
  | MonitorTick nat
  | MonitorConnectedResolved "string option" "thrown + bool"
  | MonitorAddressResolved "string option" "thrown + string option"

definition resolve :: "task \<Rightarrow> (Controller \<Rightarrow> Controller) \<Rightarrow> Controller \<Rightarrow> Controller option" where
  "resolve t k c =
     (if t \<in> set (pending c) then Some (k (c\<lparr>pending := remove1 t (pending c)\<rparr>)) else None)"

fun handler :: "event \<Rightarrow> Controller \<Rightarrow> Controller option" where
  "handler ClientReady c = (if isClientReady c then None else Some (clientReady c))"
| "handler Connect c = Some (connect c)"
| "handler RefreshConnection c = Some (connect c)"
| "handler Disconnect c = Some (disconnect c)"
| "handler (IsConnectedResolved outcome) c =
     resolve AwaitIsConnected (connectAfterIsConnected outcome) c"
| "handler (RequestAccessResolved outcome) c =
     resolve AwaitRequestAccess (connectAfterRequestAccess outcome) c"
| "handler (PollTick h) c =
     (if h \<in> set (pollIntervals c) then Some (spawn AwaitPollAddress c) else None)"
| "handler (PollAddressResolved outcome) c =
     resolve AwaitPollAddress (pollForAddress outcome) c"
| "handler (BalanceResolved publicKey persist outcome) c =
     resolve (AwaitBalance publicKey persist) (balanceResolved publicKey persist outcome) c"
| "handler (ReconnectAddressResolved savedAddress outcome) c =
     resolve (AwaitReconnectAddress savedAddress) (autoReconnect savedAddress outcome) c"
| "handler (MonitorTick h) c =
     (if monitorInterval c = Some h
      then Some (spawn (AwaitMonitorConnected (address (state c))) c)
      else None)"
| "handler (MonitorConnectedResolved captured outcome) c =
     resolve (AwaitMonitorConnected captured) (monitorConnectedResolved captured outcome) c"
| "handler (MonitorAddressResolved captured outcome) c =
     resolve (AwaitMonitorAddress captured) (monitorAddressResolved captured outcome) c"

definition step :: "event \<Rightarrow> Controller \<Rightarrow> Controller option" where
  "step e c = map_option (runMonitorEffect c) (handler e c)"

inductive reachable :: "Controller \<Rightarrow> bool" where
  mounted: "reachable (initialController stored)"
| after: "reachable c \<Longrightarrow> step e c = Some c' \<Longrightarrow> reachable c'"

section \<open>Stellar service: contract reads and the refine flow\<close>

text \<open>
  The values of the contract as the service inspects them (\<open>switch().name\<close> and the
  accessors of \<open>parseScValNumber\<close>), and what \<open>scValToNative\<close> can hand back
  (\<open>typeof\<close>, \<open>Array.isArray\<close>, \<open>instanceof Map\<close>). A JavaScript number is a
  rational here: the numbers of these paths are 32-bit integers, their tenths, and
  the doubles nearest to wider integers.
\<close>

datatype scval =
    ScvU32 nat
  | ScvI32 int
  | ScvU64 nat
  | ScvI64 int
  | ScvU128 nat nat
  | ScvSymbol string
  | ScvVec "scval list"
  | ScvMap "(scval \<times> scval) list option"
  | ScvOther

datatype native =
    NNumber rat
  | NBigInt int
  | NString string
  | NBoolean bool
  | NNull
  | NArray "native list"
  | NMap "(native \<times> native) list"
  | NObject "(string \<times> native) list"

text \<open>
  \<open>scValToNative\<close> as the SDK documents it: 32-bit integers become numbers, wider
  ones \<open>BigInt\<close>, a symbol a string, a vector an array, a map an object.
\<close>

fun keyOf :: "native \<Rightarrow> string" where
  "keyOf (NString s) = s"
| "keyOf other = []"

fun nativeOf :: "scval \<Rightarrow> native" where
  "nativeOf (ScvU32 n) = NNumber (of_nat n)"
| "nativeOf (ScvI32 i) = NNumber (of_int i)"
| "nativeOf (ScvU64 n) = NBigInt (int n)"
| "nativeOf (ScvI64 i) = NBigInt i"
| "nativeOf (ScvU128 hi lo) = NBigInt (int hi * 2 ^ 64 + int lo)"
| "nativeOf (ScvSymbol s) = NString s"
| "nativeOf (ScvVec xs) = NArray (map nativeOf xs)"
| "nativeOf (ScvMap None) = NObject []"
| "nativeOf (ScvMap (Some kvs)) = NObject (map (\<lambda>(k, v). (keyOf (nativeOf k), nativeOf v)) kvs)"
| "nativeOf ScvOther = NNull"

text \<open>
  The answer of \<open>server.simulateTransaction\<close>: a success with its optional return
  value, or an error with its \<open>error\<close> text; \<open>jsonBefore\<close> and \<open>jsonAfter\<close> are
  the text \<open>JSON.stringify\<close> writes for the other fields, around that of \<open>error\<close>.
\<close>

datatype simulation =
    SimulationSuccess (retval: "scval option")
  | SimulationError (sim_error: string) (jsonBefore: string) (jsonAfter: string)

text \<open>
  The SDK and the runtime are parameters: which constructor calls throw, what
  \<open>scValToNative\<close> returns for a value, how a number prints in a template string,
  and the message of the \<open>TypeError\<close> that destructuring \<open>null\<close> throws.
\<close>

record Sdk =
  newServer :: "string \<Rightarrow> thrown option"
  newContract :: "string \<Rightarrow> thrown option"
  addressFromString :: "string \<Rightarrow> thrown option"
  nativeToScVal :: "json \<Rightarrow> thrown option"
  scValToNative :: "scval \<Rightarrow> thrown + native"
  numberToString :: "rat \<Rightarrow> string"
  nullDestructureMessage :: string

text \<open>
  The two constants of the module, after their defaults (\<open>|| ''\<close> and the testnet
  URL) were applied.
\<close>

record Config =
  CONTRACT_ID :: string
  RPC_URL :: string

text \<open>The two network calls of one read or one refine: \<open>Some\<close> is a rejection.\<close>

record RpcCall =
  getAccount :: "thrown option"
  simulateTransaction :: "thrown + simulation"

datatype rpc_event = Built string | Simulated string

definition getSorobanServer :: "Config \<Rightarrow> Sdk \<Rightarrow> thrown option" where
  "getSorobanServer cfg sdk =
     (if RPC_URL cfg = []
      then Some (Thrown True (Some ''SOROBAN_RPC_URL environment variable is not set'') None)
      else newServer sdk (RPC_URL cfg))"

text \<open>
  \<open>getCooldownRemaining\<close>: the body of its \<open>try\<close> block, which can throw, with the
  transactions it built and simulated; then the function, whose \<open>catch\<close> returns 0.
\<close>

definition cooldownTry :: "Config \<Rightarrow> Sdk \<Rightarrow> RpcCall \<Rightarrow> (thrown + rat) \<times> rpc_event list" where
  "cooldownTry cfg sdk call =
     (case getSorobanServer cfg sdk of
        Some err \<Rightarrow> (Inl err, [])
      | None \<Rightarrow>
          (case newContract sdk (CONTRACT_ID cfg) of
             Some err \<Rightarrow> (Inl err, [])
           | None \<Rightarrow>
               (let evs = [Built ''get_cooldown_remaining'', Simulated ''get_cooldown_remaining'']
                in case simulateTransaction call of
                     Inl err \<Rightarrow> (Inl err, evs)
                   | Inr (SimulationError e b a) \<Rightarrow> (Inr 0, evs)
                   | Inr (SimulationSuccess None) \<Rightarrow> (Inr 0, evs)
                   | Inr (SimulationSuccess (Some resultValue)) \<Rightarrow>
                       (case scValToNative sdk resultValue of
                          Inl err \<Rightarrow> (Inl err, evs)
                        | Inr (NNumber cooldownSeconds) \<Rightarrow> (Inr cooldownSeconds, evs)
                        | Inr other \<Rightarrow> (Inr 0, evs)))))"

definition getCooldownRemaining :: "Config \<Rightarrow> Sdk \<Rightarrow> RpcCall \<Rightarrow> rat \<times> rpc_event list" where
  "getCooldownRemaining cfg sdk call =
     (case cooldownTry cfg sdk call of
        (Inl err, evs) \<Rightarrow> (0, evs)
      | (Inr seconds, evs) \<Rightarrow> (seconds, evs))"

record RefineStrategyResponse =
  success :: bool
  newScore :: "rat option"
  message :: string
  error :: "string option"
  cooldownRemaining :: "rat option"
  transactionXDR :: "string option"

definition failure :: "string \<Rightarrow> string \<Rightarrow> RefineStrategyResponse" where
  "failure msg code =
     \<lparr>success = False, newScore = None, message = msg, error = Some code,
      cooldownRemaining = None, transactionXDR = None\<rparr>"

definition cooldownActive :: "Sdk \<Rightarrow> rat \<Rightarrow> RefineStrategyResponse" where
  "cooldownActive sdk remaining =
     (failure (''Strategy refinement is on cooldown. Please wait '' @ numberToString sdk remaining
               @ '' seconds.'') ''COOLDOWN_ACTIVE'')
       \<lparr>cooldownRemaining := Some remaining\<rparr>"

text \<open>\<open>JSON.stringify\<close> of a string, and of a failed simulation.\<close>

definition hexDigit :: "nat \<Rightarrow> char" where
  "hexDigit n = ''0123456789abcdef'' ! (n mod 16)"

definition jsonEscapeChar :: "char \<Rightarrow> string" where
  "jsonEscapeChar c =
     (let n = (of_char c :: nat)
      in if n = 34 then [CHR 0x5C, CHR 0x22]
         else if n = 92 then [CHR 0x5C, CHR 0x5C]
         else if n = 8 then [CHR 0x5C, CHR ''b'']
         else if n = 9 then [CHR 0x5C, CHR ''t'']
         else if n = 10 then [CHR 0x5C, CHR ''n'']
         else if n = 12 then [CHR 0x5C, CHR ''f'']
         else if n = 13 then [CHR 0x5C, CHR ''r'']
         else if n < 32
           then [CHR 0x5C, CHR ''u'', CHR ''0'', CHR ''0'', hexDigit (n div 16), hexDigit n]
         else [c])"

definition jsonQuote :: "string \<Rightarrow> string" where
  "jsonQuote s = CHR 0x22 # concat (map jsonEscapeChar s) @ [CHR 0x22]"

fun stringifySimulation :: "simulation \<Rightarrow> string" where
  "stringifySimulation (SimulationError e before after) = before @ jsonQuote e @ after"
| "stringifySimulation (SimulationSuccess v) = []"

definition cooldownPanic :: "string \<Rightarrow> bool" where
  "cooldownPanic errorString =
     (includes_str errorString ''unreachablecodereached''
      \<or> includes_str errorString ''vm call trapped''
      \<or> includes_str errorString ''unreachable'')"

text \<open>
  The calls one \<open>refineStrategy\<close> can make: the cooldown read of the safety check,
  the account lookup and the simulation of the refine transaction, the assembly of
  the prepared transaction to XDR, and the cooldown read that follows a panic.
\<close>

record RefineCalls =
  firstCooldown :: RpcCall
  refineCall :: RpcCall
  assembled :: "thrown + string"
  followupCooldown :: RpcCall

definition refineCatch ::
  "Config \<Rightarrow> Sdk \<Rightarrow> RefineCalls \<Rightarrow> thrown \<Rightarrow> rpc_event list
     \<Rightarrow> RefineStrategyResponse \<times> rpc_event list" where
  "refineCatch cfg sdk calls err evs =
     (if isErrorInstance err
      then
        (let m = (case errMessage err of Some m \<Rightarrow> m | None \<Rightarrow> [])
         in if includes_str m ''UnreachableCodeReached''
            then (let (remaining, evs') = getCooldownRemaining cfg sdk (followupCooldown calls)
                  in (cooldownActive sdk remaining, evs @ evs'))
            else (failure m ''UNKNOWN_ERROR'', evs))
      else (failure ''An unknown error occurred'' ''UNKNOWN_ERROR'', evs))"

definition refineStrategy ::
  "Config \<Rightarrow> Sdk \<Rightarrow> string \<Rightarrow> json \<Rightarrow> RefineCalls
     \<Rightarrow> RefineStrategyResponse \<times> rpc_event list" where
  "refineStrategy cfg sdk walletAddress performanceMetric calls =
     (let (cooldown, evs1) = getCooldownRemaining cfg sdk (firstCooldown calls)
      in if cooldown > 0 then (cooldownActive sdk cooldown, evs1)
         else if CONTRACT_ID cfg = [] \<or> trim (CONTRACT_ID cfg) = []
           then (failure ''Contract ID not configured'' ''UNKNOWN_ERROR'', evs1)
         else
           (case getSorobanServer cfg sdk of
              Some err \<Rightarrow> refineCatch cfg sdk calls err evs1
            | None \<Rightarrow>
                (case getAccount (refineCall calls) of
                   Some err \<Rightarrow>
                     (failure ''Failed to load wallet account. Please ensure it is funded on Testnet.''
                        ''UNKNOWN_ERROR'', evs1)
                 | None \<Rightarrow>
                     (case newContract sdk (CONTRACT_ID cfg) of
                        Some err \<Rightarrow> refineCatch cfg sdk calls err evs1
                      | None \<Rightarrow>
                          (case addressFromString sdk walletAddress of
                             Some err \<Rightarrow> refineCatch cfg sdk calls err evs1
                           | None \<Rightarrow>
                               (case nativeToScVal sdk performanceMetric of
                                  Some err \<Rightarrow> refineCatch cfg sdk calls err evs1
                                | None \<Rightarrow>
     (let evs2 = evs1 @ [Built ''refine_strategy'', Simulated ''refine_strategy'']
      in case simulateTransaction (refineCall calls) of
           Inl err \<Rightarrow> refineCatch cfg sdk calls err evs2
         | Inr (SimulationSuccess v) \<Rightarrow>
             (case assembled calls of
                Inl err \<Rightarrow> refineCatch cfg sdk calls err evs2
              | Inr xdr \<Rightarrow>
                  (\<lparr>success = True, newScore = None,
                    message = ''Transaction simulated successfully. Signing required.'',
                    error = None, cooldownRemaining = None, transactionXDR = Some xdr\<rparr>, evs2))
         | Inr (SimulationError simError before after) \<Rightarrow>
             (let errorString =
                    toLowerCase (stringifySimulation (SimulationError simError before after))
              in if cooldownPanic errorString
                 then (let (remaining, evs') = getCooldownRemaining cfg sdk (followupCooldown calls)
                       in (cooldownActive sdk remaining, evs2 @ evs'))
                 else (failure (''Simulation failed: '' @ simError) ''SIMULATION_FAILED'',
                       evs2)))))))))"

section \<open>The routes \<open>POST /api/portfolio/refine\<close> and \<open>GET /api/portfolio/stats\<close>\<close>

record HttpResponse =
  status :: nat
  body :: json
  cacheControl :: "string option"

definition optionalField :: "string \<Rightarrow> 'a option \<Rightarrow> ('a \<Rightarrow> json) \<Rightarrow> (string \<times> json) list" where
  "optionalField k v f = (case v of Some x \<Rightarrow> [(k, f x)] | None \<Rightarrow> [])"

definition responseJson :: "RefineStrategyResponse \<Rightarrow> json" where
  "responseJson r =
     JObj ([(''success'', JBool (success r))]
           @ optionalField ''newScore'' (newScore r) JNum
           @ [(''message'', JStr (message r))]
           @ optionalField ''error'' (error r) JStr
           @ optionalField ''cooldownRemaining'' (cooldownRemaining r) JNum
           @ optionalField ''transactionXDR'' (transactionXDR r) JStr)"

definition noStore :: "string option" where
  "noStore = Some ''no-store, max-age=0''"

text \<open>
  The handler of the refine route. \<open>requestJson\<close> is the outcome of
  \<open>request.json()\<close>; \<open>routeCooldown\<close> is the cooldown read the route itself makes.
\<close>

text \<open>\<open>performanceMetric = 10\<close> in the destructuring of the request body.\<close>

definition metricOf :: "json \<Rightarrow> json" where
  "metricOf reqBody =
     (case json_member reqBody ''performanceMetric'' of Some m \<Rightarrow> m | None \<Rightarrow> JNum 10)"

definition POST_catch :: "thrown \<Rightarrow> HttpResponse" where
  "POST_catch err =
     \<lparr>status = 500,
      body = JObj [(''success'', JBool False),
                   (''message'', JStr ''Failed to process refinement request''),
                   (''error'', JStr (if isErrorInstance err
                                     then (case errMessage err of Some m \<Rightarrow> m | None \<Rightarrow> [])
                                     else ''UNKNOWN_ERROR''))],
      cacheControl = noStore\<rparr>"

definition POST ::
  "Config \<Rightarrow> Sdk \<Rightarrow> thrown + json \<Rightarrow> RefineCalls \<Rightarrow> RpcCall \<Rightarrow> HttpResponse" where
  "POST cfg sdk requestJson calls routeCooldown =
     (case requestJson of
        Inl err \<Rightarrow> POST_catch err
      | Inr JNull \<Rightarrow>
          POST_catch (Thrown True (Some (nullDestructureMessage sdk)) None)
      | Inr reqBody \<Rightarrow>
          (case json_member reqBody ''walletAddress'' of
             Some (JStr walletAddress) \<Rightarrow>
               if walletAddress = []
               then \<lparr>status = 400,
                     body = JObj [(''success'', JBool False),
                                  (''error'', JStr ''Wallet address is required'')],
                     cacheControl = None\<rparr>
               else
                 (let performanceMetric = metricOf reqBody;
                      result = fst (refineStrategy cfg sdk walletAddress performanceMetric calls)
                  in if \<not> success result \<and> error result = Some ''COOLDOWN_ACTIVE''
                     then \<lparr>status = 400, body = responseJson result, cacheControl = noStore\<rparr>
                     else if \<not> success result \<and> error result = Some ''SIMULATION_FAILED''
                             \<and> cooldownPanic (toLowerCase (message result))
                     then
                       (let cooldownSeconds = fst (getCooldownRemaining cfg sdk routeCooldown)
                        in \<lparr>status = 400,
                            body = JObj [(''success'', JBool False),
                                         (''error'', JStr ''COOLDOWN_ACTIVE''),
                                         (''cooldownRemaining'', JNum cooldownSeconds),
                                         (''message'', JStr ''Strategy optimization is recharging'')],
                            cacheControl = noStore\<rparr>)
                     else \<lparr>status = (if success result then 200 else 400),
                           body = responseJson result, cacheControl = noStore\<rparr>)
           | other \<Rightarrow>
               \<lparr>status = 400,
                body = JObj [(''success'', JBool False),
                             (''error'', JStr ''Wallet address is required'')],
                cacheControl = None\<rparr>))"


text \<open>Portfolio statistics, the fallback constant and the parsers of the contract result.\<close>

datatype data_source = Blockchain | Fallback




















section \<open>Portfolio metrics: the stats fetch of the component\<close>

record ContractStats =
  cs_score :: rat
  cs_transactions :: rat
  cs_source :: data_source
  cs_timestamp :: "string option"

text \<open>
  One attempt: \<open>fetch\<close> or \<open>response.json()\<close> rejects, or a document arrives with
  its \<open>success\<close> flag (by truth value) and its \<open>data\<close>, when it has one.
\<close>

datatype fetch_outcome = FetchRejected | FetchResult bool "ContractStats option"

record StatsFetch =
  contractStats :: "ContractStats option"
  statsLoading :: bool
  statsError :: "string option"
  requests :: nat
  timeouts :: "int list"

definition statsInitial :: StatsFetch where
  "statsInitial =
     \<lparr>contractStats = None, statsLoading = True, statsError = None, requests = 0, timeouts = []\<rparr>"

text \<open>
  \<open>fetchContractStats(retries, delay)\<close> with the answers of the endpoint by request
  number: each attempt sets the loading flag, clears the error and sends one
  request; a failed one with retries left schedules the next attempt with
  \<open>setTimeout\<close> after \<open>delay\<close> ms, whose run is the recursive call.
\<close>

function fetchContractStats ::
  "int \<Rightarrow> int \<Rightarrow> (nat \<Rightarrow> fetch_outcome) \<Rightarrow> StatsFetch \<Rightarrow> StatsFetch" where
  "fetchContractStats retries delay endpoint st =
     (let st1 = st\<lparr>statsLoading := True, statsError := None, requests := requests st + 1\<rparr>
      in case endpoint (requests st) of
           FetchResult True (Some d) \<Rightarrow> st1\<lparr>contractStats := Some d, statsLoading := False\<rparr>
         | _ \<Rightarrow>
             if retries > 0
             then fetchContractStats (retries - 1) (delay * 2) endpoint
                    (st1\<lparr>timeouts := timeouts st1 @ [delay]\<rparr>)
             else st1\<lparr>statsError :=
                       Some ''Failed to load contract statistics after multiple attempts'',
                     statsLoading := False\<rparr>)"
  by pat_completeness auto
termination
  by (relation "measure (\<lambda>(retries, delay, endpoint, st). nat retries)") auto

declare fetchContractStats.simps [simp del]

definition failed :: "fetch_outcome \<Rightarrow> bool" where
  "failed r = (case r of FetchResult True (Some d) \<Rightarrow> False | _ \<Rightarrow> True)"


section \<open>Predicates of the statements and of their proofs\<close>

text \<open>
  The refine call gets as far as the simulation of its transaction: the safety
  check found no cooldown, the contract is configured, and the server, the account,
  the contract and the arguments of the operation were obtained without a throw.
\<close>

definition reachesSimulation :: "Config \<Rightarrow> Sdk \<Rightarrow> string \<Rightarrow> json \<Rightarrow> RefineCalls \<Rightarrow> bool" where
  "reachesSimulation cfg sdk walletAddress performanceMetric calls =
     (\<not> 0 < fst (getCooldownRemaining cfg sdk (firstCooldown calls))
      \<and> CONTRACT_ID cfg \<noteq> [] \<and> trim (CONTRACT_ID cfg) \<noteq> []
      \<and> getSorobanServer cfg sdk = None
      \<and> getAccount (refineCall calls) = None
      \<and> newContract sdk (CONTRACT_ID cfg) = None
      \<and> addressFromString sdk walletAddress = None
      \<and> nativeToScVal sdk performanceMetric = None)"

text \<open>The contract's answer to a cooldown read, when it is a number, is not negative.\<close>

definition nonNegativeAnswer :: "Sdk \<Rightarrow> RpcCall \<Rightarrow> bool" where
  "nonNegativeAnswer sdk call =
     (case simulateTransaction call of
        Inr (SimulationSuccess (Some v)) \<Rightarrow>
          (case scValToNative sdk v of Inr (NNumber x) \<Rightarrow> 0 \<le> x | _ \<Rightarrow> True)
      | _ \<Rightarrow> True)"

text \<open>
  Modelled from the spec: the contract is not among the sources, only its interface
  is (the README of the contract: \<open>get_cooldown_remaining()\<close> returns \<open>u64\<close>, the
  seconds remaining, 0 if ready). A cooldown read that succeeds with a return value
  is answered with an unsigned integer, which \<open>scValToNative\<close>, where it does not
  throw, hands back as the SDK documents.
\<close>

fun unsignedValue :: "scval \<Rightarrow> bool" where
  "unsignedValue (ScvU32 n) = True"
| "unsignedValue (ScvU64 n) = True"
| "unsignedValue (ScvU128 hi lo) = True"
| "unsignedValue other = False"

definition contractCooldownAnswer :: "Sdk \<Rightarrow> RpcCall \<Rightarrow> bool" where
  "contractCooldownAnswer sdk call =
     (case simulateTransaction call of
        Inr (SimulationSuccess (Some v)) \<Rightarrow>
          unsignedValue v
          \<and> (case scValToNative sdk v of Inl err \<Rightarrow> True | Inr n \<Rightarrow> n = nativeOf v)
      | _ \<Rightarrow> True)"







definition errorOf :: "HttpResponse \<Rightarrow> json option" where
  "errorOf r = json_member (body r) ''error''"

definition cooldownOf :: "HttpResponse \<Rightarrow> json option" where
  "cooldownOf r = json_member (body r) ''cooldownRemaining''"

text \<open>The invariants of the controller.\<close>

definition authorizedHasAddress :: "WalletState \<Rightarrow> bool" where
  "authorizedHasAddress s = (isAuthorized s \<longrightarrow> address s \<noteq> None)"

definition reconnectsTruthy :: "task list \<Rightarrow> bool" where
  "reconnectsTruthy ts = (\<forall>saved. AwaitReconnectAddress saved \<in> set ts \<longrightarrow> truthy saved)"

definition safe :: "Controller \<Rightarrow> bool" where
  "safe c = (authorizedHasAddress (state c) \<and> reconnectsTruthy (pending c))"

definition pollTimersOwned :: "Controller \<Rightarrow> bool" where
  "pollTimersOwned c =
     (set (pollIntervals c) \<subseteq> set_option (pollingIntervalRef c)
      \<and> distinct (pollIntervals c)
      \<and> (\<forall>h \<in> set_option (pollingIntervalRef c). 0 < h \<and> h < nextHandle c)
      \<and> 0 < nextHandle c)"

definition monitorOnlyWithAddress :: "Controller \<Rightarrow> bool" where
  "monitorOnlyWithAddress c =
     (monitorInterval c \<noteq> None \<longrightarrow> isClientReady c \<and> truthyString (address (state c)))"

definition monitorKept :: "Controller \<Rightarrow> Controller \<Rightarrow> bool" where
  "monitorKept c c' = (monitorInterval c' = monitorInterval c \<or> monitorInterval c' = None)"

definition plain :: "char \<Rightarrow> bool" where
  "plain c = (32 \<le> (of_char c :: nat) \<and> of_char c \<noteq> (34::nat) \<and> of_char c \<noteq> (92::nat))"

text \<open>Running a list of events; one that cannot happen is skipped.\<close>

fun exec :: "event list \<Rightarrow> Controller \<Rightarrow> Controller" where
  "exec [] c = c"
| "exec (e # es) c = (case step e c of Some c' \<Rightarrow> exec es c' | None \<Rightarrow> exec es c)"

definition afterDisconnect :: "Controller \<Rightarrow> Controller" where
  "afterDisconnect c = runMonitorEffect c (disconnect c)"

section \<open>Concrete inputs\<close>

fun digits :: "nat \<Rightarrow> string" where
  "digits n =
     (if n < 10 then [''0123456789'' ! n]
      else digits (n div 10) @ [''0123456789'' ! (n mod 10)])"

text \<open>
  An SDK for the examples: a server needs an http or https URL, a contract id and
  an address the shape of a key (56 characters of the base-32 alphabet after the
  version letter; the check sum is not modelled), a metric must be a number.
\<close>

definition base32Char :: "char \<Rightarrow> bool" where
  "base32Char c =
     (let n = (of_char c :: nat) in (65 \<le> n \<and> n \<le> 90) \<or> (50 \<le> n \<and> n \<le> 55))"

definition strKeyShape :: "char \<Rightarrow> string \<Rightarrow> bool" where
  "strKeyShape version s = (length s = 56 \<and> prefix [version] s \<and> list_all base32Char s)"

definition invalid :: "string \<Rightarrow> thrown option" where
  "invalid what = Some (Thrown True (Some what) None)"

definition exampleSdk :: Sdk where
  "exampleSdk =
     \<lparr>newServer = (\<lambda>url. if startsWith url ''https://'' \<or> startsWith url ''http://'' then None
                        else invalid ''Cannot connect to insecure Soroban RPC server''),
      newContract = (\<lambda>contractId. if strKeyShape (CHR ''C'') contractId then None
                                  else invalid ''Invalid contract ID''),
      addressFromString = (\<lambda>a. if strKeyShape (CHR ''G'') a \<or> strKeyShape (CHR ''C'') a then None
                              else invalid ''Unsupported address type''),
      nativeToScVal = (\<lambda>v. case v of JNum x \<Rightarrow> None | _ \<Rightarrow> invalid ''invalid type''),
      scValToNative = (\<lambda>v. Inr (nativeOf v)),
      numberToString = (\<lambda>x. (if x < 0 then ''-'' else []) @ digits (nat \<bar>floor x\<bar>)),
      nullDestructureMessage = ''Cannot destructure property walletAddress of body as it is null.''\<rparr>"

definition throwingSdk :: Sdk where
  "throwingSdk =
     exampleSdk\<lparr>scValToNative := (\<lambda>v. Inl (Thrown True (Some ''XDR Read Error'') None))\<rparr>"

definition unconfigured :: Config where
  "unconfigured = \<lparr>CONTRACT_ID = [], RPC_URL = ''https://soroban-testnet.stellar.org''\<rparr>"

definition insecureConfig :: Config where
  "insecureConfig =
     \<lparr>CONTRACT_ID = ''CDLZFC3SYJYDZT7K67VZ75HPJVIEUVNIXF47ZG2FB2RMQQVU2HHGCYSC'',
      RPC_URL = ''ftp://soroban-testnet.stellar.org''\<rparr>"

definition adminAddress :: string where
  "adminAddress = ''GAAZI4TCR3TY5OJHCTJC2A4QSY6CJWJH5IAJTGKIN2ER7LBNVKOCCWN7''"

definition refineRequest :: json where
  "refineRequest = JObj [(''walletAddress'', JStr adminAddress)]"

definition exampleConfig :: Config where
  "exampleConfig =
     \<lparr>CONTRACT_ID = ''CDLZFC3SYJYDZT7K67VZ75HPJVIEUVNIXF47ZG2FB2RMQQVU2HHGCYSC'',
      RPC_URL = ''https://soroban-testnet.stellar.org''\<rparr>"


definition exampleWallet :: string where
  "exampleWallet = ''GABCDEFGHIJKLMNOPQRSTUVWXYZ234567890ABCDEFGHIJKLMNOPQ''"

definition unfundedLedger :: horizon where
  "unfundedLedger a = Inl (Thrown True (Some ''Request failed with status code 404'') (Some 404))"

definition offlineLedger :: horizon where
  "offlineLedger a = Inl (Thrown True (Some ''Network Error'') None)"

definition fundedLedger :: horizon where
  "fundedLedger a =
     Inr [\<lparr>asset_type = ''credit_alphanum4'', line_balance = ''5.0000000''\<rparr>,
          \<lparr>asset_type = ''native'', line_balance = ''123.4567890''\<rparr>]"

definition connectedState :: WalletState where
  "connectedState = initialState\<lparr>address := Some exampleWallet, isAuthorized := True\<rparr>"

text \<open>A read: the random source account does not exist, the simulation answers.\<close>

definition answering :: "scval \<Rightarrow> RpcCall" where
  "answering v =
     \<lparr>getAccount = Some (Thrown True (Some ''Account not found'') (Some 404)),
      simulateTransaction = Inr (SimulationSuccess (Some v))\<rparr>"

definition answeringNothing :: RpcCall where
  "answeringNothing =
     \<lparr>getAccount = Some (Thrown True (Some ''Account not found'') (Some 404)),
      simulateTransaction = Inr (SimulationSuccess None)\<rparr>"

definition failingRead :: RpcCall where
  "failingRead =
     \<lparr>getAccount = Some (Thrown True (Some ''Account not found'') (Some 404)),
      simulateTransaction =
        Inr (SimulationError ''HostError: Error(Storage, MissingValue)''
               (CHR 0x7B # CHR 0x22 # ''error'' @ [CHR 0x22, CHR 0x3A]) [CHR 0x7D])\<rparr>"

definition panicSimulation :: simulation where
  "panicSimulation =
     SimulationError ''HostError: Error(WasmVm, InvalidAction) VM call trapped: UnreachableCodeReached''
       (CHR 0x7B # CHR 0x22 # ''error'' @ [CHR 0x22, CHR 0x3A]) [CHR 0x7D]"

definition panicCalls :: "scval \<Rightarrow> RefineCalls" where
  "panicCalls followup =
     \<lparr>firstCooldown = answering (ScvU64 1800),
      refineCall = \<lparr>getAccount = None, simulateTransaction = Inr panicSimulation\<rparr>,
      assembled = Inr [],
      followupCooldown = answering followup\<rparr>"

definition coolingCalls :: "scval \<Rightarrow> RefineCalls" where
  "coolingCalls remaining =
     \<lparr>firstCooldown = answering remaining,
      refineCall = \<lparr>getAccount = None, simulateTransaction = Inr panicSimulation\<rparr>,
      assembled = Inr [],
      followupCooldown = answering remaining\<rparr>"



definition unreachableRpc :: RpcCall where
  "unreachableRpc =
     \<lparr>getAccount = Some (Thrown True (Some ''Network Error'') None),
      simulateTransaction = Inl (Thrown True (Some ''Network Error'') None)\<rparr>"

definition connectEvents :: "event list" where
  "connectEvents = [ClientReady, Connect, IsConnectedResolved (Inr True), RequestAccessResolved (Inr ())]"

definition connectedController :: Controller where
  "connectedController =
     exec (connectEvents @ [PollAddressResolved (Inr (Some exampleWallet))]) (initialController None)"

definition fundedController :: Controller where
  "fundedController =
     exec (connectEvents @ [PollAddressResolved (Inr (Some exampleWallet)),
                            BalanceResolved exampleWallet True (fundedLedger exampleWallet)])
       (initialController None)"

definition pollingController :: Controller where
  "pollingController =
     exec (connectEvents @ [PollAddressResolved (Inr None)]) (initialController None)"

definition tickedController :: Controller where
  "tickedController = exec [PollTick 1] pollingController"

definition lateAnswer :: Controller where
  "lateAnswer =
     exec [PollAddressResolved (Inr (Some exampleWallet))] (afterDisconnect tickedController)"

definition monitoredController :: Controller where
  "monitoredController = exec [MonitorTick 2] fundedController"

definition lateMonitorAnswer :: Controller where
  "lateMonitorAnswer =
     exec [MonitorConnectedResolved (Some exampleWallet) (Inr False)]
       (afterDisconnect monitoredController)"

definition twiceConnecting :: Controller where
  "twiceConnecting = exec (connectEvents @ tl connectEvents) (initialController None)"

definition failingEndpoint :: "nat \<Rightarrow> fetch_outcome" where
  "failingEndpoint k = FetchRejected"

definition exampleStats :: ContractStats where
  "exampleStats =
     \<lparr>cs_score = 8.7, cs_transactions = 142, cs_source = Blockchain,
      cs_timestamp = Some ''2025-01-01T00:05:00.000Z''\<rparr>"

definition recoveringEndpoint :: "nat \<Rightarrow> fetch_outcome" where
  "recoveringEndpoint k = (if k < 2 then FetchResult False None else FetchResult True (Some exampleStats))"


subsection \<open>Fields after the primitive operations\<close>

lemma spawn_fields [simp]:
  "state (spawn t c) = state c"
  "pending (spawn t c) = pending c @ [t]"
  "pollIntervals (spawn t c) = pollIntervals c"
  "pollingIntervalRef (spawn t c) = pollingIntervalRef c"
  "monitorInterval (spawn t c) = monitorInterval c"
  "nextHandle (spawn t c) = nextHandle c"
  "isClientReady (spawn t c) = isClientReady c"
  "storedConnection (spawn t c) = storedConnection c"
  by (simp_all add: spawn_def)

lemma setState_fields [simp]:
  "state (setState f c) = f (state c)"
  "pending (setState f c) = pending c"
  "pollIntervals (setState f c) = pollIntervals c"
  "pollingIntervalRef (setState f c) = pollingIntervalRef c"
  "monitorInterval (setState f c) = monitorInterval c"
  "nextHandle (setState f c) = nextHandle c"
  "isClientReady (setState f c) = isClientReady c"
  "storedConnection (setState f c) = storedConnection c"
  by (simp_all add: setState_def)

lemma clearInterval_fields [simp]:
  "state (clearInterval h c) = state c"
  "pending (clearInterval h c) = pending c"
  "pollIntervals (clearInterval h c) = removeAll h (pollIntervals c)"
  "pollingIntervalRef (clearInterval h c) = pollingIntervalRef c"
  "monitorInterval (clearInterval h c) = (if monitorInterval c = Some h then None else monitorInterval c)"
  "nextHandle (clearInterval h c) = nextHandle c"
  "isClientReady (clearInterval h c) = isClientReady c"
  "storedConnection (clearInterval h c) = storedConnection c"
  by (simp_all add: clearInterval_def)

lemma persistConnection_fields [simp]:
  "state (persistConnection k c) = state c"
  "pending (persistConnection k c) = pending c"
  "pollIntervals (persistConnection k c) = pollIntervals c"
  "pollingIntervalRef (persistConnection k c) = pollingIntervalRef c"
  "monitorInterval (persistConnection k c) = monitorInterval c"
  "nextHandle (persistConnection k c) = nextHandle c"
  "isClientReady (persistConnection k c) = isClientReady c"
  by (simp_all add: persistConnection_def)

lemma stopPolling_fields [simp]:
  "state (stopPolling c) = state c"
  "pending (stopPolling c) = pending c"
  "nextHandle (stopPolling c) = nextHandle c"
  "isClientReady (stopPolling c) = isClientReady c"
  "storedConnection (stopPolling c) = storedConnection c"
  by (simp_all add: stopPolling_def split: option.splits)

lemma startPolling_fields [simp]:
  "state (startPolling c) = state c"
  "pending (startPolling c) = pending c @ [AwaitPollAddress]"
  "pollingIntervalRef (startPolling c) = Some (nextHandle c)"
  "nextHandle (startPolling c) = nextHandle c + 1"
  "isClientReady (startPolling c) = isClientReady c"
  "storedConnection (startPolling c) = storedConnection c"
  by (simp_all add: startPolling_def Let_def split: option.splits)

lemma callFetchBalance_fields [simp]:
  "state (callFetchBalance k p c) = state c"
  "pollIntervals (callFetchBalance k p c) = pollIntervals c"
  "pollingIntervalRef (callFetchBalance k p c) = pollingIntervalRef c"
  "monitorInterval (callFetchBalance k p c) = monitorInterval c"
  "nextHandle (callFetchBalance k p c) = nextHandle c"
  "isClientReady (callFetchBalance k p c) = isClientReady c"
  by (simp_all add: callFetchBalance_def)

lemma callFetchBalance_pending:
  "set (pending (callFetchBalance k p c)) \<subseteq> insert (AwaitBalance k p) (set (pending c))"
  by (auto simp: callFetchBalance_def)

subsection \<open>Poll timers\<close>

lemma removeAll_only: "set xs \<subseteq> {h} \<Longrightarrow> removeAll h xs = []"
  by (induction xs) auto

lemma owned_clearInterval: "pollTimersOwned c \<Longrightarrow> pollTimersOwned (clearInterval h c)"
  by (auto simp: pollTimersOwned_def distinct_removeAll)

lemma owned_stopPolling:
  assumes "pollTimersOwned c"
  shows "pollTimersOwned (stopPolling c)" "pollIntervals (stopPolling c) = []"
    "pollingIntervalRef (stopPolling c) = None"
  using assms
  by (auto simp: pollTimersOwned_def stopPolling_def removeAll_only split: option.splits)

lemma owned_startPolling:
  assumes "pollTimersOwned c"
  shows "pollTimersOwned (startPolling c)" "pollIntervals (startPolling c) = [nextHandle c]"
  using assms
  by (auto simp: pollTimersOwned_def startPolling_def Let_def removeAll_only split: option.splits)


lemma owned_cong:
  assumes "pollIntervals c' = pollIntervals c" "pollingIntervalRef c' = pollingIntervalRef c"
    "nextHandle c' = nextHandle c"
  shows "pollTimersOwned c' = pollTimersOwned c"
  using assms by (simp add: pollTimersOwned_def)

lemma owned_callFetchBalance: "pollTimersOwned (callFetchBalance k p c) = pollTimersOwned c"
  by (rule owned_cong) simp_all

lemma owned_setState: "pollTimersOwned (setState f c) = pollTimersOwned c"
  by (rule owned_cong) simp_all

lemma owned_spawn: "pollTimersOwned (spawn t c) = pollTimersOwned c"
  by (rule owned_cong) simp_all

lemma owned_persist: "pollTimersOwned (persistConnection k c) = pollTimersOwned c"
  by (rule owned_cong) simp_all

lemma owned_pending: "pollTimersOwned (c\<lparr>pending := ts\<rparr>) = pollTimersOwned c"
  by (rule owned_cong) simp_all

lemma owned_stored: "pollTimersOwned (c\<lparr>storedConnection := d\<rparr>) = pollTimersOwned c"
  by (rule owned_cong) simp_all

lemma owned_ready: "pollTimersOwned (c\<lparr>isClientReady := b\<rparr>) = pollTimersOwned c"
  by (rule owned_cong) simp_all

lemmas owned_simps = owned_callFetchBalance owned_setState owned_spawn owned_persist
  owned_pending owned_stored owned_ready

lemma owned_pollForAddress: "pollTimersOwned c \<Longrightarrow> pollTimersOwned (pollForAddress r c)"
  by (simp add: pollForAddress_def Let_def owned_simps owned_stopPolling
           split: sum.splits option.splits)

lemma owned_balanceResolved: "pollTimersOwned c \<Longrightarrow> pollTimersOwned (balanceResolved k p r c)"
  by (simp add: balanceResolved_def Let_def owned_simps)

lemma owned_connect: "pollTimersOwned c \<Longrightarrow> pollTimersOwned (connect c)"
  by (simp add: connect_def owned_simps)

lemma owned_connectCatch: "pollTimersOwned c \<Longrightarrow> pollTimersOwned (connectCatch err c)"
  by (simp add: connectCatch_def owned_simps owned_stopPolling)

lemma owned_connectAfterIsConnected:
  "pollTimersOwned c \<Longrightarrow> pollTimersOwned (connectAfterIsConnected r c)"
  by (simp add: connectAfterIsConnected_def owned_simps owned_connectCatch split: sum.splits)

lemma owned_connectAfterRequestAccess:
  "pollTimersOwned c \<Longrightarrow> pollTimersOwned (connectAfterRequestAccess r c)"
  by (simp add: connectAfterRequestAccess_def owned_connectCatch owned_startPolling
           split: sum.splits)

lemma owned_disconnect: "pollTimersOwned c \<Longrightarrow> pollTimersOwned (disconnect c)"
  by (simp add: disconnect_def owned_simps owned_stopPolling)

lemma owned_clientReady: "pollTimersOwned c \<Longrightarrow> pollTimersOwned (clientReady c)"
  by (simp add: clientReady_def Let_def owned_simps split: option.splits)

lemma owned_autoReconnect: "pollTimersOwned c \<Longrightarrow> pollTimersOwned (autoReconnect s r c)"
  by (simp add: autoReconnect_def Let_def owned_simps owned_startPolling
           split: sum.splits option.splits)

lemma owned_monitorConnectedResolved:
  "pollTimersOwned c \<Longrightarrow> pollTimersOwned (monitorConnectedResolved cap r c)"
  by (simp add: monitorConnectedResolved_def owned_simps split: sum.splits)

lemma owned_monitorAddressResolved:
  "pollTimersOwned c \<Longrightarrow> pollTimersOwned (monitorAddressResolved cap r c)"
  by (simp add: monitorAddressResolved_def owned_simps split: sum.splits)

lemma owned_resolve:
  assumes "resolve t k c = Some c'" "pollTimersOwned c"
    "\<And>d. pollTimersOwned d \<Longrightarrow> pollTimersOwned (k d)"
  shows "pollTimersOwned c'"
  using assms by (auto simp: resolve_def owned_pending split: if_splits)

lemma owned_handler:
  assumes "pollTimersOwned c" "handler e c = Some c'"
  shows "pollTimersOwned c'"
proof (cases e)
  case ClientReady
  with assms show ?thesis by (auto simp: owned_clientReady split: if_splits)
next
  case Connect
  with assms show ?thesis by (auto simp: owned_connect)
next
  case RefreshConnection
  with assms show ?thesis by (auto simp: owned_connect)
next
  case Disconnect
  with assms show ?thesis by (auto simp: owned_disconnect)
next
  case (IsConnectedResolved r)
  with assms show ?thesis by (auto elim!: owned_resolve simp: owned_connectAfterIsConnected)
next
  case (RequestAccessResolved r)
  with assms show ?thesis by (auto elim!: owned_resolve simp: owned_connectAfterRequestAccess)
next
  case (PollTick h)
  with assms show ?thesis by (auto simp: owned_simps split: if_splits)
next
  case (PollAddressResolved r)
  with assms show ?thesis by (auto elim!: owned_resolve simp: owned_pollForAddress)
next
  case (BalanceResolved k p r)
  with assms show ?thesis by (auto elim!: owned_resolve simp: owned_balanceResolved)
next
  case (ReconnectAddressResolved s r)
  with assms show ?thesis by (auto elim!: owned_resolve simp: owned_autoReconnect)
next
  case (MonitorTick h)
  with assms show ?thesis by (auto simp: owned_simps split: if_splits)
next
  case (MonitorConnectedResolved cap r)
  with assms show ?thesis by (auto elim!: owned_resolve simp: owned_monitorConnectedResolved)
next
  case (MonitorAddressResolved cap r)
  with assms show ?thesis by (auto elim!: owned_resolve simp: owned_monitorAddressResolved)
qed

lemma owned_runMonitorEffect:
  "pollTimersOwned c \<Longrightarrow> pollTimersOwned (runMonitorEffect b c)"
  by (auto simp: runMonitorEffect_def Let_def pollTimersOwned_def distinct_removeAll
           split: option.splits)


subsection \<open>Authorisation and pending reconnects\<close>

lemma reconnectsTruthy_append [simp]:
  "reconnectsTruthy (ts @ [t]) =
     (reconnectsTruthy ts \<and> (\<forall>s. t = AwaitReconnectAddress s \<longrightarrow> truthy s))"
  by (auto simp: reconnectsTruthy_def)

lemma reconnectsTruthy_remove1: "reconnectsTruthy ts \<Longrightarrow> reconnectsTruthy (remove1 t ts)"
  by (auto simp: reconnectsTruthy_def dest: notin_set_remove1)

lemma reconnects_callFetchBalance [simp]:
  "reconnectsTruthy (pending (callFetchBalance k p c)) = reconnectsTruthy (pending c)"
  by (simp add: callFetchBalance_def)

lemma fetchBalance_frame:
  "address (fst (fetchBalance k l prev)) = address prev"
  "isAuthorized (fst (fetchBalance k l prev)) = isAuthorized prev"
  by (simp_all add: fetchBalance_def Let_def split: sum.splits option.splits)

lemma monitor_updates_frame:
  "address (monitorAfterIsConnected cap b prev) = address prev"
  "isAuthorized (monitorAfterIsConnected cap b prev) = isAuthorized prev"
  "address (monitorAfterGetAddress cap r prev) = address prev"
  "isAuthorized (monitorAfterGetAddress cap r prev) = isAuthorized prev"
  by (simp_all add: monitorAfterIsConnected_def monitorAfterGetAddress_def)

lemma strictEquals_truthy: "strictEquals x j \<Longrightarrow> truthy j \<Longrightarrow> x \<noteq> None"
  by (cases x; cases j) auto

lemma safe_pollForAddress: "safe c \<Longrightarrow> safe (pollForAddress r c)"
  by (simp add: safe_def pollForAddress_def Let_def authorizedHasAddress_def
           split: sum.splits option.splits)

lemma safe_balanceResolved: "safe c \<Longrightarrow> safe (balanceResolved k p r c)"
  by (simp add: safe_def balanceResolved_def Let_def authorizedHasAddress_def fetchBalance_frame)

lemma safe_connect: "safe c \<Longrightarrow> safe (connect c)"
  by (simp add: safe_def connect_def authorizedHasAddress_def)

lemma safe_connectCatch: "safe c \<Longrightarrow> safe (connectCatch err c)"
  by (simp add: safe_def connectCatch_def authorizedHasAddress_def)

lemma safe_connectAfterIsConnected: "safe c \<Longrightarrow> safe (connectAfterIsConnected r c)"
  by (auto simp: connectAfterIsConnected_def safe_connectCatch split: sum.splits)
     (simp add: safe_def)

lemma safe_connectAfterRequestAccess: "safe c \<Longrightarrow> safe (connectAfterRequestAccess r c)"
  by (auto simp: connectAfterRequestAccess_def safe_connectCatch split: sum.splits)
     (simp add: safe_def)

lemma safe_disconnect: "safe c \<Longrightarrow> safe (disconnect c)"
  by (simp add: safe_def disconnect_def authorizedHasAddress_def initialState_def)

lemma safe_clientReady: "safe c \<Longrightarrow> safe (clientReady c)"
  by (simp add: safe_def clientReady_def Let_def split: option.splits)

lemma safe_autoReconnect:
  "safe c \<Longrightarrow> truthy savedAddress \<Longrightarrow> safe (autoReconnect savedAddress r c)"
  by (auto simp: safe_def autoReconnect_def Let_def authorizedHasAddress_def
           split: sum.splits option.splits dest: strictEquals_truthy)

lemma safe_monitorConnectedResolved: "safe c \<Longrightarrow> safe (monitorConnectedResolved cap r c)"
  by (simp add: safe_def monitorConnectedResolved_def authorizedHasAddress_def
        monitor_updates_frame split: sum.splits)

lemma safe_monitorAddressResolved: "safe c \<Longrightarrow> safe (monitorAddressResolved cap r c)"
  by (simp add: safe_def monitorAddressResolved_def authorizedHasAddress_def
        monitor_updates_frame split: sum.splits)

lemma safe_pending_remove1: "safe c \<Longrightarrow> safe (c\<lparr>pending := remove1 t (pending c)\<rparr>)"
  by (simp add: safe_def reconnectsTruthy_remove1)

lemma safe_resolve:
  assumes "resolve t k c = Some c'" "safe c" "\<And>d. safe d \<Longrightarrow> safe (k d)"
  shows "safe c'"
  using assms by (auto simp: resolve_def safe_pending_remove1 split: if_splits)

lemma safe_handler:
  assumes "safe c" "handler e c = Some c'"
  shows "safe c'"
proof (cases e)
  case ClientReady
  with assms show ?thesis by (auto simp: safe_clientReady split: if_splits)
next
  case Connect
  with assms show ?thesis by (auto simp: safe_connect)
next
  case RefreshConnection
  with assms show ?thesis by (auto simp: safe_connect)
next
  case Disconnect
  with assms show ?thesis by (auto simp: safe_disconnect)
next
  case (IsConnectedResolved r)
  with assms show ?thesis by (auto elim!: safe_resolve simp: safe_connectAfterIsConnected)
next
  case (RequestAccessResolved r)
  with assms show ?thesis by (auto elim!: safe_resolve simp: safe_connectAfterRequestAccess)
next
  case (PollTick h)
  with assms show ?thesis by (auto simp: safe_def split: if_splits)
next
  case (PollAddressResolved r)
  with assms show ?thesis by (auto elim!: safe_resolve simp: safe_pollForAddress)
next
  case (BalanceResolved k p r)
  with assms show ?thesis by (auto elim!: safe_resolve simp: safe_balanceResolved)
next
  case (ReconnectAddressResolved s r)
  with assms have "truthy s"
    by (auto simp: resolve_def safe_def reconnectsTruthy_def split: if_splits)
  with assms ReconnectAddressResolved show ?thesis
    by (auto elim!: safe_resolve simp: safe_autoReconnect)
next
  case (MonitorTick h)
  with assms show ?thesis by (auto simp: safe_def split: if_splits)
next
  case (MonitorConnectedResolved cap r)
  with assms show ?thesis by (auto elim!: safe_resolve simp: safe_monitorConnectedResolved)
next
  case (MonitorAddressResolved cap r)
  with assms show ?thesis by (auto elim!: safe_resolve simp: safe_monitorAddressResolved)
qed

lemma runMonitorEffect_fields [simp]:
  "state (runMonitorEffect b c) = state c"
  "pending (runMonitorEffect b c) = pending c"
  "isClientReady (runMonitorEffect b c) = isClientReady c"
  "storedConnection (runMonitorEffect b c) = storedConnection c"
  "pollingIntervalRef (runMonitorEffect b c) = pollingIntervalRef c"
  by (simp_all add: runMonitorEffect_def Let_def split: option.splits)

lemma safe_runMonitorEffect: "safe c \<Longrightarrow> safe (runMonitorEffect b c)"
  by (simp add: safe_def)

subsection \<open>The monitor interval\<close>

lemma kept_refl: "monitorKept c c"
  by (simp add: monitorKept_def)

lemma kept_same: "monitorInterval c' = monitorInterval c \<Longrightarrow> monitorKept c c'"
  by (simp add: monitorKept_def)

lemma kept_stopPolling: "monitorKept c (stopPolling c)"
  by (simp add: monitorKept_def stopPolling_def split: option.splits)

lemma kept_startPolling: "monitorKept c (startPolling c)"
  by (simp add: monitorKept_def startPolling_def Let_def split: option.splits)

lemma kept_pollForAddress: "monitorKept c (pollForAddress r c)"
  using kept_stopPolling [of c]
  by (simp add: monitorKept_def pollForAddress_def Let_def split: sum.splits option.splits)

lemma kept_connectCatch: "monitorKept c (connectCatch err c)"
  using kept_stopPolling [of c] by (simp add: monitorKept_def connectCatch_def)

lemma kept_connectAfterIsConnected: "monitorKept c (connectAfterIsConnected r c)"
  using kept_connectCatch [of c]
  by (simp add: connectAfterIsConnected_def kept_same split: sum.splits)

lemma kept_connectAfterRequestAccess: "monitorKept c (connectAfterRequestAccess r c)"
  using kept_connectCatch [of c] kept_startPolling [of c]
  by (simp add: connectAfterRequestAccess_def split: sum.splits)

lemma kept_disconnect: "monitorKept c (disconnect c)"
  using kept_stopPolling [of c] by (simp add: monitorKept_def disconnect_def)

lemma kept_clientReady: "monitorKept c (clientReady c)"
  by (simp add: monitorKept_def clientReady_def Let_def split: option.splits)

lemma kept_autoReconnect: "monitorKept c (autoReconnect s r c)"
  using kept_startPolling [of c]
    kept_startPolling [of "setState (\<lambda>prev. prev\<lparr>isWalletLocked := True\<rparr>) c"]
  by (simp add: monitorKept_def autoReconnect_def Let_def split: sum.splits option.splits)

lemma kept_balanceResolved: "monitorKept c (balanceResolved k p r c)"
  by (simp add: monitorKept_def balanceResolved_def Let_def)

lemma kept_resolve:
  assumes "resolve t k c = Some c'" "\<And>d. monitorKept d (k d)"
  shows "monitorKept c c'"
proof -
  from assms(1) have "c' = k (c\<lparr>pending := remove1 t (pending c)\<rparr>)"
    by (auto simp: resolve_def split: if_splits)
  with assms(2) [of "c\<lparr>pending := remove1 t (pending c)\<rparr>"] show ?thesis
    by (simp add: monitorKept_def)
qed

lemma kept_handler:
  assumes "handler e c = Some c'"
  shows "monitorKept c c'"
proof (cases e)
  case ClientReady
  with assms show ?thesis by (auto simp: kept_clientReady split: if_splits)
next
  case Connect
  with assms show ?thesis by (auto simp: connect_def kept_same)
next
  case RefreshConnection
  with assms show ?thesis by (auto simp: connect_def kept_same)
next
  case Disconnect
  with assms show ?thesis by (auto simp: kept_disconnect)
next
  case (IsConnectedResolved r)
  with assms show ?thesis by (auto elim!: kept_resolve simp: kept_connectAfterIsConnected)
next
  case (RequestAccessResolved r)
  with assms show ?thesis by (auto elim!: kept_resolve simp: kept_connectAfterRequestAccess)
next
  case (PollTick h)
  with assms show ?thesis by (auto simp: kept_same split: if_splits)
next
  case (PollAddressResolved r)
  with assms show ?thesis by (auto elim!: kept_resolve simp: kept_pollForAddress)
next
  case (BalanceResolved k p r)
  with assms show ?thesis by (auto elim!: kept_resolve simp: kept_balanceResolved)
next
  case (ReconnectAddressResolved s r)
  with assms show ?thesis by (auto elim!: kept_resolve simp: kept_autoReconnect)
next
  case (MonitorTick h)
  with assms show ?thesis by (auto simp: kept_same split: if_splits)
next
  case (MonitorConnectedResolved cap r)
  with assms show ?thesis
    by (auto elim!: kept_resolve simp: kept_same monitorConnectedResolved_def split: sum.splits)
next
  case (MonitorAddressResolved cap r)
  with assms show ?thesis
    by (auto elim!: kept_resolve simp: kept_same monitorAddressResolved_def split: sum.splits)
qed

lemma monitor_runMonitorEffect:
  assumes "monitorOnlyWithAddress b" "monitorKept b c"
  shows "monitorOnlyWithAddress (runMonitorEffect b c)"
  using assms
  by (auto simp: monitorOnlyWithAddress_def monitorKept_def runMonitorEffect_def Let_def
           split: option.splits)

subsection \<open>What holds in every reachable state\<close>

lemma reachable_invariant:
  assumes "reachable c"
  shows "safe c \<and> pollTimersOwned c \<and> monitorOnlyWithAddress c"
  using assms
proof (induction rule: reachable.induct)
  case (mounted stored)
  show ?case
    by (simp add: initialController_def initialState_def safe_def authorizedHasAddress_def
          reconnectsTruthy_def pollTimersOwned_def monitorOnlyWithAddress_def)
next
  case (after c e c')
  from after.hyps(2) obtain c1 where h: "handler e c = Some c1" and c': "c' = runMonitorEffect c c1"
    by (auto simp: step_def)
  from after.IH h have "safe c1" "pollTimersOwned c1" "monitorKept c c1"
    by (auto intro: safe_handler owned_handler kept_handler)
  with after.IH c' show ?case
    by (simp add: safe_runMonitorEffect owned_runMonitorEffect monitor_runMonitorEffect)
qed


lemma toLowerChar_fixed: "\<not> isUpperCase d \<Longrightarrow> toLowerChar d = d"
  by (simp add: toLowerChar_def)

lemma jsonEscapeChar_plain:
  "jsonEscapeChar d = [d] \<or> (toLowerChar d = d \<and> ((of_char d :: nat) < 32 \<or> of_char d = (34::nat) \<or> of_char d = (92::nat)))"
  by (auto simp: jsonEscapeChar_def Let_def toLowerChar_def isUpperCase_def)

lemma escape_of_plain:
  assumes "plain (toLowerChar d)"
  shows "jsonEscapeChar d = [d]"
  using jsonEscapeChar_plain [of d] assms by (auto simp: plain_def)

lemma escape_of_plain_word:
  assumes "\<forall>c \<in> set (map toLowerChar m). plain c"
  shows "concat (map jsonEscapeChar m) = m"
  using assms by (induction m) (simp_all add: escape_of_plain)

lemma keyword_survives_stringify:
  assumes "includes_str (toLowerCase e) kw" "\<forall>c \<in> set kw. plain c"
  shows "includes_str (toLowerCase (before @ jsonQuote e @ after)) kw"
proof -
  from assms(1) obtain p s where "map toLowerChar e = p @ kw @ s"
    by (auto simp: includes_str_def toLowerCase_def sublist_def)
  then obtain ep rest where 1: "e = ep @ rest" and 2: "map toLowerChar rest = kw @ s"
    by (metis map_eq_append_conv)
  from 2 obtain em es where 3: "rest = em @ es" and m: "map toLowerChar em = kw"
    by (metis map_eq_append_conv)
  from 1 3 have e: "e = ep @ em @ es" by simp
  from m assms(2) have "concat (map jsonEscapeChar em) = em"
    by (intro escape_of_plain_word) simp
  with e m have "toLowerCase (before @ jsonQuote e @ after)
      = (toLowerCase (before @ CHR 0x22 # concat (map jsonEscapeChar ep))) @ kw
        @ toLowerCase (concat (map jsonEscapeChar es) @ CHR 0x22 # after)"
    by (simp add: toLowerCase_def jsonQuote_def)
  then show ?thesis
    by (simp add: includes_str_def)
qed

lemma keywords_plain:
  "\<forall>c \<in> set ''unreachablecodereached''. plain c"
  "\<forall>c \<in> set ''vm call trapped''. plain c"
  "\<forall>c \<in> set ''unreachable''. plain c"
  by (simp_all add: plain_def)

lemma cooldownPanic_stringify:
  assumes "cooldownPanic (toLowerCase e)"
  shows "cooldownPanic (toLowerCase (stringifySimulation (SimulationError e before after)))"
  using assms keywords_plain
  by (auto simp: cooldownPanic_def intro: keyword_survives_stringify)


lemma cooldown_fst:
  "fst (getCooldownRemaining cfg sdk call) =
     (case fst (cooldownTry cfg sdk call) of Inl err \<Rightarrow> 0 | Inr seconds \<Rightarrow> seconds)"
  by (simp add: getCooldownRemaining_def split: prod.splits sum.splits)

lemma cooldown_snd:
  "snd (getCooldownRemaining cfg sdk call) = snd (cooldownTry cfg sdk call)"
  by (simp add: getCooldownRemaining_def split: prod.splits sum.splits)

lemma cooldownTry_events:
  "set (snd (cooldownTry cfg sdk call))
     \<subseteq> {Built ''get_cooldown_remaining'', Simulated ''get_cooldown_remaining''}"
  by (simp add: cooldownTry_def Let_def
        split: option.splits sum.splits simulation.splits native.splits)

lemma cooldown_nonneg:
  assumes "nonNegativeAnswer sdk call"
  shows "0 \<le> fst (getCooldownRemaining cfg sdk call)"
proof -
  consider (number) v x where "simulateTransaction call = Inr (SimulationSuccess (Some v))"
      and "scValToNative sdk v = Inr (NNumber x)"
    | (other) "\<not> (\<exists>v x. simulateTransaction call = Inr (SimulationSuccess (Some v))
                     \<and> scValToNative sdk v = Inr (NNumber x))"
    by blast
  then show ?thesis
  proof cases
    case number
    with assms have "0 \<le> x" by (simp add: nonNegativeAnswer_def)
    with number show ?thesis
      by (simp add: cooldown_fst cooldownTry_def Let_def split: option.splits)
  next
    case other
    then show ?thesis
      by (auto simp: cooldown_fst cooldownTry_def Let_def
            split: option.splits sum.splits simulation.splits native.splits)
  qed
qed

lemma refineStrategy_first:
  assumes "0 < fst (getCooldownRemaining cfg sdk (firstCooldown calls))"
  shows "refineStrategy cfg sdk w m calls =
           (cooldownActive sdk (fst (getCooldownRemaining cfg sdk (firstCooldown calls))),
            snd (getCooldownRemaining cfg sdk (firstCooldown calls)))"
  using assms by (simp add: refineStrategy_def split_def Let_def)

lemma refineStrategy_panic:
  assumes "reachesSimulation cfg sdk w m calls"
    and "simulateTransaction (refineCall calls) = Inr (SimulationError e before after)"
    and "cooldownPanic (toLowerCase e)"
  shows "fst (refineStrategy cfg sdk w m calls)
           = cooldownActive sdk (fst (getCooldownRemaining cfg sdk (followupCooldown calls)))"
  using assms cooldownPanic_stringify [OF assms(3), of before after]
  by (simp add: refineStrategy_def reachesSimulation_def Let_def split_def)


section \<open>The balance fetch\<close>

lemma exampleWallet_valid: "\<not> invalidPublicKey (Some exampleWallet)"
  by (simp add: invalidPublicKey_def exampleWallet_def trim_def isWhiteSpace_def)

text \<open>
  Claim C2. For an address that passes the guard of \<open>fetchBalance\<close> (it is not
  empty, so the lookup is made): when the ledger lookup fails, with status 404 or
  with anything else, the balance becomes the fixed amount \<open>10000.00\<close> and nothing
  else changes, the \<open>error\<close> field in particular; when the lookup succeeds and a
  native entry is found, the balance becomes the amount of the first such entry.
\<close>

theorem fetchBalance_fallback_or_native:
  assumes "\<not> invalidPublicKey (Some pk)"
  shows "(loadAccount pk = Inl err \<longrightarrow>
            fst (fetchBalance (Some pk) loadAccount prev) = prev\<lparr>balance := Some ''10000.00''\<rparr>
          \<and> WalletState.error (fst (fetchBalance (Some pk) loadAccount prev)) = WalletState.error prev)
       \<and> (loadAccount pk = Inr balances
            \<and> find (\<lambda>b. asset_type b = ''native'') balances = Some nativeBalance \<longrightarrow>
            fst (fetchBalance (Some pk) loadAccount prev)
              = prev\<lparr>balance := Some (line_balance nativeBalance)\<rparr>)"
  using assms by (simp add: fetchBalance_def invalidPublicKey_def Let_def)

theorem fetchBalance_fallback_or_native_witness:
  "\<not> invalidPublicKey (Some exampleWallet)
   \<and> balance (fst (fetchBalance (Some exampleWallet) unfundedLedger initialState)) = Some ''10000.00''
   \<and> WalletState.error (fst (fetchBalance (Some exampleWallet) unfundedLedger initialState)) = None
   \<and> balance (fst (fetchBalance (Some exampleWallet) offlineLedger initialState)) = Some ''10000.00''
   \<and> balance (fst (fetchBalance (Some exampleWallet) fundedLedger initialState)) = Some ''123.4567890''"
  using fetchBalance_fallback_or_native [OF exampleWallet_valid, of unfundedLedger _ initialState]
    fetchBalance_fallback_or_native [OF exampleWallet_valid, of offlineLedger _ initialState]
    fetchBalance_fallback_or_native [OF exampleWallet_valid, of fundedLedger _ initialState
      "[\<lparr>asset_type = ''credit_alphanum4'', line_balance = ''5.0000000''\<rparr>,
        \<lparr>asset_type = ''native'', line_balance = ''123.4567890''\<rparr>]"
      "\<lparr>asset_type = ''native'', line_balance = ''123.4567890''\<rparr>"]
    exampleWallet_valid
  by (simp add: unfundedLedger_def offlineLedger_def fundedLedger_def initialState_def)

text \<open>
  Claim C9. For a null, empty or white-space-only address, \<open>fetchBalance\<close> makes
  no network call, writes exactly one warning and returns the connection state it
  was given, the balance with it.
\<close>

theorem fetchBalance_invalid_key_noop:
  assumes "publicKey = None \<or> publicKey = Some []
           \<or> (\<exists>pk. publicKey = Some pk \<and> (\<forall>c \<in> set pk. isWhiteSpace c))"
  shows "fst (fetchBalance publicKey loadAccount prev) = prev
       \<and> balance (fst (fetchBalance publicKey loadAccount prev)) = balance prev
       \<and> networkCalls (snd (fetchBalance publicKey loadAccount prev)) = []
       \<and> warnings (snd (fetchBalance publicKey loadAccount prev))
           = [''[fetchBalance] Invalid public key'']"
proof -
  have blank: "trim pk = []" if "\<forall>c \<in> set pk. isWhiteSpace c" for pk
    using that by (auto simp: trim_def dest: set_dropWhileD)
  have "invalidPublicKey publicKey"
    using assms blank by (auto simp: invalidPublicKey_def)
  then show ?thesis
    by (auto simp: fetchBalance_def invalidPublicKey_def networkCalls_def warnings_def
             split: option.splits)
qed

theorem fetchBalance_invalid_key_noop_witness:
  "list_all isWhiteSpace ''   ''
   \<and> fst (fetchBalance (Some ''   '') fundedLedger connectedState) = connectedState
   \<and> networkCalls (snd (fetchBalance (Some ''   '') fundedLedger connectedState)) = []
   \<and> fst (fetchBalance None fundedLedger connectedState) = connectedState
   \<and> fst (fetchBalance (Some []) fundedLedger connectedState) = connectedState"
proof -
  have ws: "\<forall>c \<in> set ''   ''. isWhiteSpace c"
    by (simp add: isWhiteSpace_def)
  then have "\<exists>pk. Some ''   '' = Some pk \<and> (\<forall>c \<in> set pk. isWhiteSpace c)"
    by blast
  with ws show ?thesis
    unfolding list_all_iff
    using fetchBalance_invalid_key_noop [of "Some ''   ''" fundedLedger connectedState]
      fetchBalance_invalid_key_noop [of None fundedLedger connectedState]
      fetchBalance_invalid_key_noop [of "Some []" fundedLedger connectedState]
    by simp
qed

section \<open>The monitor\<close>

text \<open>
  Claim C7. The monitor runs while there is an address, which \<open>checkConnection\<close>
  sees as \<open>captured\<close>. When the extension reports that it is not connected, or
  answers the address query with no address, \<open>checkConnection\<close> sets
  \<open>isWalletLocked\<close> and an error message, and leaves \<open>address\<close> and
  \<open>isAuthorized\<close> as they were.
\<close>

theorem monitor_locks_keeps_address:
  assumes "truthyString captured"
    and "isConnectedOutcome = Inr False
         \<or> (\<exists>b resp. isConnectedOutcome = Inr b \<and> getAddressOutcome = Inr resp
                       \<and> orNull resp = None)"
  shows "isWalletLocked (checkConnection captured isConnectedOutcome getAddressOutcome prev)
       \<and> WalletState.error (checkConnection captured isConnectedOutcome getAddressOutcome prev)
           \<in> {Some ''Wallet disconnected'', Some ''Wallet locked''}
       \<and> address (checkConnection captured isConnectedOutcome getAddressOutcome prev)
           = address prev
       \<and> isAuthorized (checkConnection captured isConnectedOutcome getAddressOutcome prev)
           = isAuthorized prev"
  using assms
  by (auto simp: checkConnection_def monitorAfterIsConnected_def monitorAfterGetAddress_def
           split: sum.splits)

theorem monitor_locks_keeps_address_witness:
  "truthyString (Some exampleWallet)
   \<and> isWalletLocked (checkConnection (Some exampleWallet) (Inr False)
        (Inl (Thrown True (Some ''locked'') None)) connectedState)
   \<and> address (checkConnection (Some exampleWallet) (Inr False)
        (Inl (Thrown True (Some ''locked'') None)) connectedState) = Some exampleWallet
   \<and> isAuthorized (checkConnection (Some exampleWallet) (Inr False)
        (Inl (Thrown True (Some ''locked'') None)) connectedState)
   \<and> WalletState.error (checkConnection (Some exampleWallet) (Inr True) (Inr None) connectedState)
        = Some ''Wallet locked''
   \<and> address (checkConnection (Some exampleWallet) (Inr True) (Inr None) connectedState)
        = Some exampleWallet"
proof -
  have t: "truthyString (Some exampleWallet)"
    by (simp add: truthyString_def exampleWallet_def)
  have n: "\<exists>b resp. (Inr True :: thrown + bool) = Inr b
             \<and> (Inr None :: thrown + string option) = Inr resp \<and> orNull resp = None"
    by (auto simp: orNull_def)
  show ?thesis
    using t monitor_locks_keeps_address [OF t, of "Inr False"
        "Inl (Thrown True (Some ''locked'') None)" connectedState]
      monitor_locks_keeps_address [OF t, of "Inr True" "Inr None" connectedState] n
    by (simp add: connectedState_def initialState_def checkConnection_def
          monitorAfterIsConnected_def monitorAfterGetAddress_def orNull_def)
qed


section \<open>The controller\<close>

lemma reachable_exec: "reachable c \<Longrightarrow> reachable (exec es c)"
  by (induction es arbitrary: c) (auto split: option.splits intro: reachable.after)

lemma owned_at_most_one:
  assumes "pollTimersOwned c"
  shows "length (pollIntervals c) \<le> 1"
proof (cases "pollingIntervalRef c")
  case None
  with assms show ?thesis by (simp add: pollTimersOwned_def)
next
  case (Some h)
  with assms have "set (pollIntervals c) \<subseteq> {h}" and d: "distinct (pollIntervals c)"
    by (simp_all add: pollTimersOwned_def)
  then have "card (set (pollIntervals c)) \<le> card {h}"
    by (intro card_mono) simp_all
  with d show ?thesis by (simp add: distinct_card)
qed

lemma owned_fresh:
  assumes "pollTimersOwned c"
  shows "nextHandle c \<notin> set (pollIntervals c)"
  using assms by (auto simp: pollTimersOwned_def)

lemma connectedController_reachable: "reachable connectedController"
  unfolding connectedController_def by (intro reachable_exec reachable.mounted)

lemma fundedController_reachable: "reachable fundedController"
  unfolding fundedController_def by (intro reachable_exec reachable.mounted)

lemma twiceConnecting_reachable: "reachable twiceConnecting"
  unfolding twiceConnecting_def by (intro reachable_exec reachable.mounted)

text \<open>
  Claim C3. In every state the controller can reach from its initial state, by
  connecting, polling, a failed connect, disconnecting, the auto-reconnect, the
  monitor and the balance fetch in any order, \<open>isAuthorized\<close> implies that
  \<open>address\<close> is not null.
\<close>

theorem authorized_implies_address:
  assumes "reachable c" and "isAuthorized (state c)"
  shows "address (state c) \<noteq> None"
  using reachable_invariant [OF assms(1)] assms(2)
  by (simp add: safe_def authorizedHasAddress_def)

theorem authorized_implies_address_witness:
  "reachable connectedController \<and> isAuthorized (state connectedController)
   \<and> address (state connectedController) = Some exampleWallet"
proof -
  have a: "isAuthorized (state connectedController)"
    by code_simp
  have "address (state connectedController) = Some exampleWallet"
    by code_simp
  with authorized_implies_address [OF connectedController_reachable a]
    connectedController_reachable a
  show ?thesis by simp
qed

text \<open>
  Claim C8. No reachable state of the controller has two live polling intervals.
  \<open>startPolling\<close> clears the interval the ref holds before it starts the new one,
  so that after it the new interval is the only live one; this holds for every
  call, the second of two \<open>connect\<close> calls in succession included.
\<close>

theorem single_polling_timer:
  assumes "reachable c"
  shows "length (pollIntervals c) \<le> 1
       \<and> pollIntervals (startPolling c) = [nextHandle c]
       \<and> pollingIntervalRef (startPolling c) = Some (nextHandle c)
       \<and> nextHandle c \<notin> set (pollIntervals c)"
proof -
  from reachable_invariant [OF assms] have own: "pollTimersOwned c" by simp
  from owned_at_most_one [OF own] owned_startPolling [OF own] owned_fresh [OF own]
  show ?thesis by simp
qed

theorem single_polling_timer_witness:
  "reachable twiceConnecting
   \<and> pollIntervals twiceConnecting = [2]
   \<and> pollIntervals (startPolling twiceConnecting) = [3]
   \<and> length (pollIntervals (startPolling twiceConnecting)) = 1"
proof -
  have "pollIntervals twiceConnecting = [2]" "nextHandle twiceConnecting = 3"
    by code_simp+
  with single_polling_timer [OF twiceConnecting_reachable] twiceConnecting_reachable
  show ?thesis by simp
qed

text \<open>
  Claim C5, as the code has it. From every reachable state, \<open>disconnect\<close> leaves \<open>address\<close>,
  \<open>isAuthorized\<close>, \<open>balance\<close> and \<open>error\<close> cleared, the storage key removed, and
  no polling interval and no monitor interval live (the monitor's by the clean-up
  of its effect, once the address is null), so that no timer of the controller can
  fire in the state after it. When no call to the extension or the ledger is in
  flight at that moment, nothing but a new user action can change the controller
  afterwards.
\<close>

theorem disconnect_clears_and_stops:
  assumes "reachable c"
  shows "step Disconnect c = Some (afterDisconnect c)
       \<and> state (afterDisconnect c) = initialState
       \<and> address (state (afterDisconnect c)) = None
       \<and> \<not> isAuthorized (state (afterDisconnect c))
       \<and> balance (state (afterDisconnect c)) = None
       \<and> WalletState.error (state (afterDisconnect c)) = None
       \<and> storedConnection (afterDisconnect c) = None
       \<and> pollingIntervalRef (afterDisconnect c) = None
       \<and> pollIntervals (afterDisconnect c) = []
       \<and> monitorInterval (afterDisconnect c) = None
       \<and> step (PollTick h) (afterDisconnect c) = None
       \<and> step (MonitorTick h) (afterDisconnect c) = None
       \<and> (pending c = [] \<and> e \<notin> {ClientReady, Connect, RefreshConnection, Disconnect} \<longrightarrow>
            step e (afterDisconnect c) = None)"
proof -
  from reachable_invariant [OF assms]
  have own: "pollTimersOwned c" and mon: "monitorOnlyWithAddress c" by simp_all
  have st: "state (disconnect c) = initialState"
    and sc: "storedConnection (disconnect c) = None"
    and rf: "pollingIntervalRef (disconnect c) = None"
    and pi: "pollIntervals (disconnect c) = []"
    by (simp_all add: disconnect_def owned_stopPolling [OF own])
  have pi': "pollIntervals (afterDisconnect c) = []"
    using pi by (simp add: afterDisconnect_def runMonitorEffect_def Let_def split: option.splits)
  have "monitorKept c (disconnect c)" by (rule kept_disconnect)
  with mon st have mi: "monitorInterval (afterDisconnect c) = None"
    by (auto simp: afterDisconnect_def runMonitorEffect_def Let_def monitorKept_def
          monitorOnlyWithAddress_def initialState_def truthyString_def
          split: option.splits)
  have pd: "pending (afterDisconnect c) = pending c"
    by (simp add: afterDisconnect_def disconnect_def)
  have quiet: "step e (afterDisconnect c) = None"
    if "pending c = []" "e \<notin> {ClientReady, Connect, RefreshConnection, Disconnect}"
    using that pd pi' mi by (cases e) (simp_all add: step_def resolve_def)
  from st sc rf pi' mi quiet show ?thesis
    by (simp add: step_def afterDisconnect_def [symmetric] initialState_def)
       (simp add: afterDisconnect_def)
qed

theorem disconnect_clears_and_stops_witness:
  "reachable fundedController
   \<and> address (state fundedController) = Some exampleWallet
   \<and> balance (state fundedController) = Some ''123.4567890''
   \<and> monitorInterval fundedController = Some 2
   \<and> state (afterDisconnect fundedController) = initialState
   \<and> storedConnection (afterDisconnect fundedController) = None
   \<and> pollIntervals (afterDisconnect fundedController) = []
   \<and> monitorInterval (afterDisconnect fundedController) = None
   \<and> step (MonitorTick 2) (afterDisconnect fundedController) = None
   \<and> step (PollTick 1) (afterDisconnect fundedController) = None
   \<and> pending fundedController = []
   \<and> step (PollAddressResolved (Inr (Some exampleWallet))) (afterDisconnect fundedController)
        = None"
proof -
  have "address (state fundedController) = Some exampleWallet"
    "balance (state fundedController) = Some ''123.4567890''"
    "monitorInterval fundedController = Some 2"
    "pending fundedController = []"
    by code_simp+
  with disconnect_clears_and_stops [OF fundedController_reachable, of 2
      "PollAddressResolved (Inr (Some exampleWallet))"]
    disconnect_clears_and_stops [OF fundedController_reachable, of 1 "PollTick 1"]
    fundedController_reachable
  show ?thesis by simp
qed


text \<open>
  The claim as it was stated fails for a call that is in flight. The monitor
  interval fires while the wallet is connected and \<open>checkConnection\<close> waits for the
  extension; \<open>disconnect\<close> clears the state and both intervals; the answer that
  arrives afterwards sets an error and the lock flag in the cleared state. In the
  same way an address that arrives after \<open>disconnect\<close>, for a poll the polling
  interval started before it, connects the wallet again.
\<close>

theorem disconnect_inflight_counterexample:
  "monitorInterval fundedController = Some 2
   \<and> pending fundedController = []
   \<and> pending monitoredController = [AwaitMonitorConnected (Some exampleWallet)]
   \<and> state (afterDisconnect monitoredController) = initialState
   \<and> pollIntervals (afterDisconnect monitoredController) = []
   \<and> monitorInterval (afterDisconnect monitoredController) = None
   \<and> WalletState.error (state lateMonitorAnswer) = Some ''Wallet disconnected''
   \<and> isWalletLocked (state lateMonitorAnswer) = True
   \<and> pollIntervals pollingController = [1]
   \<and> pending pollingController = []
   \<and> pending tickedController = [AwaitPollAddress]
   \<and> state (afterDisconnect tickedController) = initialState
   \<and> pollIntervals (afterDisconnect tickedController) = []
   \<and> address (state lateAnswer) = Some exampleWallet
   \<and> isAuthorized (state lateAnswer) = True"
  by code_simp


section \<open>The cooldown check and the refine flow\<close>

lemma json_member_object:
  assumes "json_member j k = Some v"
  obtains kvs where "j = JObj kvs" and "map_of kvs k = Some v"
  using assms by (cases j) simp_all

lemma cooldownActive_fields [simp]:
  "success (cooldownActive sdk r) = False"
  "RefineStrategyResponse.error (cooldownActive sdk r) = Some ''COOLDOWN_ACTIVE''"
  "cooldownRemaining (cooldownActive sdk r) = Some r"
  by (simp_all add: cooldownActive_def failure_def)

lemma cooldownActive_json:
  "json_member (responseJson (cooldownActive sdk r)) ''error'' = Some (JStr ''COOLDOWN_ACTIVE'')"
  "json_member (responseJson (cooldownActive sdk r)) ''cooldownRemaining'' = Some (JNum r)"
  "json_member (responseJson (cooldownActive sdk r)) ''success'' = Some (JBool False)"
  by (simp_all add: responseJson_def cooldownActive_def failure_def optionalField_def)

lemma POST_cooldown:
  assumes "json_member reqBody ''walletAddress'' = Some (JStr walletAddress)"
    and "walletAddress \<noteq> []"
    and "fst (refineStrategy cfg sdk walletAddress (metricOf reqBody) calls) = cooldownActive sdk r"
  shows "POST cfg sdk (Inr reqBody) calls routeCooldown
           = \<lparr>status = 400, body = responseJson (cooldownActive sdk r), cacheControl = noStore\<rparr>"
proof -
  from assms(1) obtain kvs where j: "reqBody = JObj kvs"
    and m: "map_of kvs ''walletAddress'' = Some (JStr walletAddress)"
    by (rule json_member_object)
  from assms(3) j
  have r: "fst (refineStrategy cfg sdk walletAddress (metricOf (JObj kvs)) calls)
             = cooldownActive sdk r"
    by simp
  show ?thesis
    unfolding j by (simp add: POST_def m assms(2) Let_def r)
qed

lemma cooldown_zero_cases:
  "getSorobanServer cfg sdk = Some serverErr \<Longrightarrow> fst (getCooldownRemaining cfg sdk call) = 0"
  "newContract sdk (CONTRACT_ID cfg) = Some contractErr \<Longrightarrow>
     fst (getCooldownRemaining cfg sdk call) = 0"
  "simulateTransaction call = Inl simErr \<Longrightarrow> fst (getCooldownRemaining cfg sdk call) = 0"
  "simulateTransaction call = Inr (SimulationError e before after) \<Longrightarrow>
     fst (getCooldownRemaining cfg sdk call) = 0"
  "simulateTransaction call = Inr (SimulationSuccess None) \<Longrightarrow>
     fst (getCooldownRemaining cfg sdk call) = 0"
  "simulateTransaction call = Inr (SimulationSuccess (Some v)) \<Longrightarrow>
     scValToNative sdk v = Inl convErr \<Longrightarrow> fst (getCooldownRemaining cfg sdk call) = 0"
  by (simp_all add: cooldown_fst cooldownTry_def Let_def split: option.splits)

lemma cooldown_non_number:
  assumes "simulateTransaction call = Inr (SimulationSuccess (Some v))"
    and "scValToNative sdk v = Inr n" and "\<forall>x. n \<noteq> NNumber x"
  shows "fst (getCooldownRemaining cfg sdk call) = 0"
  using assms
  by (cases n) (simp_all add: cooldown_fst cooldownTry_def Let_def split: option.splits)

lemma cooldown_number:
  assumes "getSorobanServer cfg sdk = None" and "newContract sdk (CONTRACT_ID cfg) = None"
    and "simulateTransaction call = Inr (SimulationSuccess (Some v))"
    and "scValToNative sdk v = Inr (NNumber x)"
  shows "fst (getCooldownRemaining cfg sdk call) = x"
  using assms by (simp add: cooldown_fst cooldownTry_def Let_def)

text \<open>
  Claim C10. \<open>refineStrategy\<close> reads the cooldown first: whenever that read
  returns a value above 0, the result is the failure \<open>COOLDOWN_ACTIVE\<close> with that
  value as \<open>cooldownRemaining\<close>, and the only transaction built and simulated is the
  one of the read itself, never the refine transaction. \<open>getCooldownRemaining\<close>
  always returns a number: 0 when the server or the contract object cannot be made,
  when the simulation rejects, fails or has no return value, when \<open>scValToNative\<close>
  throws and when the contract's value is not a number; the contract's value when
  it is a number.
\<close>

theorem cooldown_checked_first:
  "(0 < fst (getCooldownRemaining cfg sdk (firstCooldown calls)) \<longrightarrow>
      fst (refineStrategy cfg sdk walletAddress performanceMetric calls)
        = cooldownActive sdk (fst (getCooldownRemaining cfg sdk (firstCooldown calls)))
      \<and> success (fst (refineStrategy cfg sdk walletAddress performanceMetric calls)) = False
      \<and> RefineStrategyResponse.error (fst (refineStrategy cfg sdk walletAddress performanceMetric calls))
          = Some ''COOLDOWN_ACTIVE''
      \<and> cooldownRemaining (fst (refineStrategy cfg sdk walletAddress performanceMetric calls))
          = Some (fst (getCooldownRemaining cfg sdk (firstCooldown calls)))
      \<and> snd (refineStrategy cfg sdk walletAddress performanceMetric calls)
          = snd (getCooldownRemaining cfg sdk (firstCooldown calls))
      \<and> Built ''refine_strategy''
          \<notin> set (snd (refineStrategy cfg sdk walletAddress performanceMetric calls))
      \<and> Simulated ''refine_strategy''
          \<notin> set (snd (refineStrategy cfg sdk walletAddress performanceMetric calls)))
   \<and> (getSorobanServer cfg sdk = Some serverErr \<longrightarrow> fst (getCooldownRemaining cfg sdk call) = 0)
   \<and> (newContract sdk (CONTRACT_ID cfg) = Some contractErr \<longrightarrow>
        fst (getCooldownRemaining cfg sdk call) = 0)
   \<and> (simulateTransaction call = Inl simErr \<longrightarrow> fst (getCooldownRemaining cfg sdk call) = 0)
   \<and> (simulateTransaction call = Inr (SimulationError e before after) \<longrightarrow>
        fst (getCooldownRemaining cfg sdk call) = 0)
   \<and> (simulateTransaction call = Inr (SimulationSuccess None) \<longrightarrow>
        fst (getCooldownRemaining cfg sdk call) = 0)
   \<and> (simulateTransaction call = Inr (SimulationSuccess (Some v))
        \<and> scValToNative sdk v = Inl convErr \<longrightarrow>
        fst (getCooldownRemaining cfg sdk call) = 0)
   \<and> (simulateTransaction call = Inr (SimulationSuccess (Some v))
        \<and> scValToNative sdk v = Inr n \<and> (\<forall>y. n \<noteq> NNumber y) \<longrightarrow>
        fst (getCooldownRemaining cfg sdk call) = 0)
   \<and> (getSorobanServer cfg sdk = None \<and> newContract sdk (CONTRACT_ID cfg) = None
        \<and> simulateTransaction call = Inr (SimulationSuccess (Some v))
        \<and> scValToNative sdk v = Inr (NNumber x) \<longrightarrow>
        fst (getCooldownRemaining cfg sdk call) = x)"
proof -
  have events:
    "Built ''refine_strategy'' \<notin> set (snd (getCooldownRemaining cfg sdk (firstCooldown calls)))"
    "Simulated ''refine_strategy'' \<notin> set (snd (getCooldownRemaining cfg sdk (firstCooldown calls)))"
    using cooldownTry_events [of cfg sdk "firstCooldown calls"]
    by (auto simp: cooldown_snd)
  show ?thesis
    using events cooldown_zero_cases [where cfg = cfg and sdk = sdk and call = call]
      cooldown_non_number [where cfg = cfg and sdk = sdk and call = call and v = v and n = n]
      cooldown_number [where cfg = cfg and sdk = sdk and call = call and v = v and x = x]
    by (simp add: refineStrategy_first)
qed

lemma key_shapes:
  "strKeyShape (CHR ''C'') (CONTRACT_ID exampleConfig)"
  "strKeyShape (CHR ''G'') adminAddress"
  "\<not> strKeyShape (CHR ''C'') (CONTRACT_ID unconfigured)"
  "CONTRACT_ID insecureConfig = CONTRACT_ID exampleConfig"
  by (simp_all add: strKeyShape_def base32Char_def exampleConfig_def adminAddress_def
        unconfigured_def insecureConfig_def)

lemma example_config:
  "CONTRACT_ID exampleConfig \<noteq> []"
  "trim (CONTRACT_ID exampleConfig) \<noteq> []"
  "getSorobanServer exampleConfig sdk = newServer sdk (RPC_URL exampleConfig)"
  "getSorobanServer unconfigured sdk = newServer sdk (RPC_URL exampleConfig)"
  "newServer exampleSdk (RPC_URL exampleConfig) = None"
  "getSorobanServer insecureConfig exampleSdk
     = Some (Thrown True (Some ''Cannot connect to insecure Soroban RPC server'') None)"
  by (simp_all add: getSorobanServer_def exampleConfig_def unconfigured_def insecureConfig_def
        exampleSdk_def invalid_def startsWith_def trim_def isWhiteSpace_def)

lemma example_sdk:
  "newContract exampleSdk (CONTRACT_ID exampleConfig) = None"
  "newContract exampleSdk (CONTRACT_ID unconfigured)
     = Some (Thrown True (Some ''Invalid contract ID'') None)"
  "newContract throwingSdk = newContract exampleSdk"
  "newServer throwingSdk = newServer exampleSdk"
  "addressFromString exampleSdk adminAddress = None"
  "nativeToScVal exampleSdk (JNum x) = None"
  "scValToNative exampleSdk v = Inr (nativeOf v)"
  "scValToNative throwingSdk v = Inl (Thrown True (Some ''XDR Read Error'') None)"
  by (simp_all add: exampleSdk_def throwingSdk_def invalid_def key_shapes)

lemma example_reads:
  "getCooldownRemaining exampleConfig exampleSdk (answering (ScvU32 n))
     = (of_nat n, [Built ''get_cooldown_remaining'', Simulated ''get_cooldown_remaining''])"
  "fst (getCooldownRemaining exampleConfig exampleSdk (answering (ScvU64 n))) = 0"
  by (simp_all add: getCooldownRemaining_def cooldownTry_def example_config example_sdk
        answering_def)

theorem cooldown_checked_first_witness:
  "RefineStrategyResponse.error
     (fst (refineStrategy exampleConfig exampleSdk adminAddress (JNum 10)
            (coolingCalls (ScvU32 1800)))) = Some ''COOLDOWN_ACTIVE''
   \<and> cooldownRemaining
        (fst (refineStrategy exampleConfig exampleSdk adminAddress (JNum 10)
               (coolingCalls (ScvU32 1800)))) = Some 1800
   \<and> snd (refineStrategy exampleConfig exampleSdk adminAddress (JNum 10)
            (coolingCalls (ScvU32 1800)))
        = [Built ''get_cooldown_remaining'', Simulated ''get_cooldown_remaining'']
   \<and> fst (getCooldownRemaining exampleConfig exampleSdk (answering (ScvU32 1800))) = 1800
   \<and> fst (getCooldownRemaining insecureConfig exampleSdk (answering (ScvU32 1800))) = 0
   \<and> fst (getCooldownRemaining unconfigured exampleSdk (answering (ScvU32 1800))) = 0
   \<and> fst (getCooldownRemaining exampleConfig exampleSdk unreachableRpc) = 0
   \<and> fst (getCooldownRemaining exampleConfig exampleSdk failingRead) = 0
   \<and> fst (getCooldownRemaining exampleConfig exampleSdk answeringNothing) = 0
   \<and> fst (getCooldownRemaining exampleConfig throwingSdk (answering (ScvU32 1800))) = 0
   \<and> fst (getCooldownRemaining exampleConfig exampleSdk (answering (ScvU64 1800))) = 0"
proof -
  have f: "firstCooldown (coolingCalls (ScvU32 1800)) = answering (ScvU32 1800)"
    by (simp add: coolingCalls_def)
  have sim: "simulateTransaction (answering v) = Inr (SimulationSuccess (Some v))"
    "simulateTransaction unreachableRpc = Inl (Thrown True (Some ''Network Error'') None)"
    "simulateTransaction failingRead
       = Inr (SimulationError ''HostError: Error(Storage, MissingValue)''
                (CHR 0x7B # CHR 0x22 # ''error'' @ [CHR 0x22, CHR 0x3A]) [CHR 0x7D])"
    "simulateTransaction answeringNothing = Inr (SimulationSuccess None)" for v
    by (simp_all add: answering_def unreachableRpc_def failingRead_def answeringNothing_def)
  note t = cooldown_checked_first
  have positive:
    "RefineStrategyResponse.error
       (fst (refineStrategy exampleConfig exampleSdk adminAddress (JNum 10)
              (coolingCalls (ScvU32 1800)))) = Some ''COOLDOWN_ACTIVE''
     \<and> cooldownRemaining
          (fst (refineStrategy exampleConfig exampleSdk adminAddress (JNum 10)
                 (coolingCalls (ScvU32 1800)))) = Some 1800
     \<and> snd (refineStrategy exampleConfig exampleSdk adminAddress (JNum 10)
              (coolingCalls (ScvU32 1800)))
          = [Built ''get_cooldown_remaining'', Simulated ''get_cooldown_remaining'']
     \<and> fst (getCooldownRemaining exampleConfig exampleSdk (answering (ScvU32 1800))) = 1800"
    using t [where cfg = exampleConfig and sdk = exampleSdk and calls = "coolingCalls (ScvU32 1800)"
          and walletAddress = adminAddress and performanceMetric = "JNum 10"
          and call = "answering (ScvU32 1800)" and v = "ScvU32 1800" and x = 1800]
    by (simp add: f sim example_config example_sdk example_reads)
  have server: "fst (getCooldownRemaining insecureConfig exampleSdk (answering (ScvU32 1800))) = 0"
    using t [where cfg = insecureConfig and sdk = exampleSdk and call = "answering (ScvU32 1800)"
          and serverErr = "Thrown True (Some ''Cannot connect to insecure Soroban RPC server'') None"]
    by (simp add: example_config)
  have contract: "fst (getCooldownRemaining unconfigured exampleSdk (answering (ScvU32 1800))) = 0"
    using t [where cfg = unconfigured and sdk = exampleSdk and call = "answering (ScvU32 1800)"
          and contractErr = "Thrown True (Some ''Invalid contract ID'') None"]
    by (simp add: example_sdk)
  have rejected: "fst (getCooldownRemaining exampleConfig exampleSdk unreachableRpc) = 0"
    using t [where cfg = exampleConfig and sdk = exampleSdk and call = unreachableRpc
          and simErr = "Thrown True (Some ''Network Error'') None"]
    by (simp add: sim)
  have failed: "fst (getCooldownRemaining exampleConfig exampleSdk failingRead) = 0"
    using t [where cfg = exampleConfig and sdk = exampleSdk and call = failingRead
          and e = "''HostError: Error(Storage, MissingValue)''"
          and before = "CHR 0x7B # CHR 0x22 # ''error'' @ [CHR 0x22, CHR 0x3A]"
          and after = "[CHR 0x7D]"]
    by (simp add: sim)
  have missing: "fst (getCooldownRemaining exampleConfig exampleSdk answeringNothing) = 0"
    using t [where cfg = exampleConfig and sdk = exampleSdk and call = answeringNothing]
    by (simp add: sim)
  have thrown: "fst (getCooldownRemaining exampleConfig throwingSdk (answering (ScvU32 1800))) = 0"
    using t [where cfg = exampleConfig and sdk = throwingSdk and call = "answering (ScvU32 1800)"
          and v = "ScvU32 1800" and convErr = "Thrown True (Some ''XDR Read Error'') None"]
    by (simp add: sim example_sdk)
  have bigint: "fst (getCooldownRemaining exampleConfig exampleSdk (answering (ScvU64 1800))) = 0"
    using t [where cfg = exampleConfig and sdk = exampleSdk and call = "answering (ScvU64 1800)"
          and v = "ScvU64 1800" and n = "NBigInt 1800"]
    by (simp add: sim example_sdk)
  from positive server contract rejected failed missing thrown bigint show ?thesis
    by simp
qed

lemma contract_answer_nonneg:
  assumes "contractCooldownAnswer sdk call"
  shows "nonNegativeAnswer sdk call"
proof (cases "simulateTransaction call")
  case (Inl err)
  then show ?thesis by (simp add: nonNegativeAnswer_def)
next
  case (Inr sim)
  show ?thesis
  proof (cases sim)
    case (SimulationError e b a)
    with Inr show ?thesis by (simp add: nonNegativeAnswer_def)
  next
    case (SimulationSuccess r)
    show ?thesis
    proof (cases r)
      case None
      with Inr SimulationSuccess show ?thesis by (simp add: nonNegativeAnswer_def)
    next
      case (Some v)
      with Inr SimulationSuccess assms
      have u: "unsignedValue v"
        and c: "case scValToNative sdk v of Inl err \<Rightarrow> True | Inr n \<Rightarrow> n = nativeOf v"
        by (simp_all add: contractCooldownAnswer_def)
      from u c have "case scValToNative sdk v of Inr (NNumber x) \<Rightarrow> 0 \<le> x | _ \<Rightarrow> True"
        by (cases v) (auto split: sum.splits)
      with Inr SimulationSuccess Some show ?thesis by (simp add: nonNegativeAnswer_def)
    qed
  qed
qed

text \<open>
  Claim C1. When the refine call reaches its simulation, the simulation fails and
  the lower-cased error text contains one of the three substrings,
  \<open>refineStrategy\<close> returns the failure \<open>COOLDOWN_ACTIVE\<close>, not \<open>SIMULATION_FAILED\<close>,
  and the route answers 400 with that result. Its \<open>cooldownRemaining\<close> is what the
  follow-up \<open>getCooldownRemaining\<close> returns, and that is not negative: the contract
  answers the read with an unsigned integer.
\<close>

theorem panic_reported_as_cooldown:
  assumes "reachesSimulation cfg sdk walletAddress (metricOf reqBody) calls"
    and "simulateTransaction (refineCall calls) = Inr (SimulationError e before after)"
    and "cooldownPanic (toLowerCase e)"
    and "json_member reqBody ''walletAddress'' = Some (JStr walletAddress)"
    and "walletAddress \<noteq> []"
    and "contractCooldownAnswer sdk (followupCooldown calls)"
  shows "fst (refineStrategy cfg sdk walletAddress (metricOf reqBody) calls)
           = cooldownActive sdk (fst (getCooldownRemaining cfg sdk (followupCooldown calls)))
       \<and> success (fst (refineStrategy cfg sdk walletAddress (metricOf reqBody) calls)) = False
       \<and> RefineStrategyResponse.error
            (fst (refineStrategy cfg sdk walletAddress (metricOf reqBody) calls))
           = Some ''COOLDOWN_ACTIVE''
       \<and> cooldownRemaining (fst (refineStrategy cfg sdk walletAddress (metricOf reqBody) calls))
           = Some (fst (getCooldownRemaining cfg sdk (followupCooldown calls)))
       \<and> status (POST cfg sdk (Inr reqBody) calls routeCooldown) = 400
       \<and> errorOf (POST cfg sdk (Inr reqBody) calls routeCooldown)
           = Some (JStr ''COOLDOWN_ACTIVE'')
       \<and> cooldownOf (POST cfg sdk (Inr reqBody) calls routeCooldown)
           = Some (JNum (fst (getCooldownRemaining cfg sdk (followupCooldown calls))))
       \<and> 0 \<le> fst (getCooldownRemaining cfg sdk (followupCooldown calls))"
proof -
  note r = refineStrategy_panic [OF assms(1-3)]
  note p = POST_cooldown [OF assms(4,5) r, of routeCooldown]
  note n = cooldown_nonneg [OF contract_answer_nonneg [OF assms(6)], of cfg]
  show ?thesis
    by (simp add: r p n errorOf_def cooldownOf_def cooldownActive_json)
qed

lemma refineRequest_fields:
  "json_member refineRequest ''walletAddress'' = Some (JStr adminAddress)"
  "adminAddress \<noteq> []"
  "metricOf refineRequest = JNum 10"
  by (simp_all add: refineRequest_def adminAddress_def metricOf_def)

lemma panicCalls_fields:
  "firstCooldown (panicCalls followup) = answering (ScvU64 1800)"
  "followupCooldown (panicCalls followup) = answering followup"
  "getAccount (refineCall (panicCalls followup)) = None"
  "simulateTransaction (refineCall (panicCalls followup))
     = Inr (SimulationError (sim_error panicSimulation) (jsonBefore panicSimulation)
              (jsonAfter panicSimulation))"
  by (simp_all add: panicCalls_def panicSimulation_def)

lemma panicCalls_reach:
  "reachesSimulation exampleConfig exampleSdk adminAddress (metricOf refineRequest)
     (panicCalls followup)"
  by (simp add: reachesSimulation_def refineRequest_fields panicCalls_fields example_config
        example_sdk example_reads)

lemma panicSimulation_matches: "cooldownPanic (toLowerCase (sim_error panicSimulation))"
  by code_simp

lemma panicCalls_answer:
  "contractCooldownAnswer exampleSdk (followupCooldown (panicCalls (ScvU64 1799)))"
  "contractCooldownAnswer exampleSdk (followupCooldown (panicCalls (ScvU32 1799)))"
  by (simp_all add: contractCooldownAnswer_def panicCalls_fields answering_def example_sdk)

theorem panic_reported_as_cooldown_witness:
  "reachesSimulation exampleConfig exampleSdk adminAddress (metricOf refineRequest)
     (panicCalls (ScvU64 1799))
   \<and> cooldownPanic (toLowerCase (sim_error panicSimulation))
   \<and> contractCooldownAnswer exampleSdk (followupCooldown (panicCalls (ScvU64 1799)))
   \<and> status (POST exampleConfig exampleSdk (Inr refineRequest) (panicCalls (ScvU64 1799))
        unreachableRpc) = 400
   \<and> errorOf (POST exampleConfig exampleSdk (Inr refineRequest) (panicCalls (ScvU64 1799))
        unreachableRpc) = Some (JStr ''COOLDOWN_ACTIVE'')
   \<and> cooldownOf (POST exampleConfig exampleSdk (Inr refineRequest) (panicCalls (ScvU64 1799))
        unreachableRpc) = Some (JNum 0)
   \<and> contractCooldownAnswer exampleSdk (followupCooldown (panicCalls (ScvU32 1799)))
   \<and> errorOf (POST exampleConfig exampleSdk (Inr refineRequest) (panicCalls (ScvU32 1799))
        unreachableRpc) = Some (JStr ''COOLDOWN_ACTIVE'')
   \<and> cooldownOf (POST exampleConfig exampleSdk (Inr refineRequest) (panicCalls (ScvU32 1799))
        unreachableRpc) = Some (JNum 1799)"
proof -
  note w = refineRequest_fields(1,2)
  have u64:
    "status (POST exampleConfig exampleSdk (Inr refineRequest) (panicCalls (ScvU64 1799))
        unreachableRpc) = 400
     \<and> errorOf (POST exampleConfig exampleSdk (Inr refineRequest) (panicCalls (ScvU64 1799))
          unreachableRpc) = Some (JStr ''COOLDOWN_ACTIVE'')
     \<and> cooldownOf (POST exampleConfig exampleSdk (Inr refineRequest) (panicCalls (ScvU64 1799))
          unreachableRpc) = Some (JNum 0)"
    using panic_reported_as_cooldown [OF panicCalls_reach panicCalls_fields(4)
        panicSimulation_matches w panicCalls_answer(1), of unreachableRpc]
    by (simp add: panicCalls_fields example_reads)
  have u32:
    "errorOf (POST exampleConfig exampleSdk (Inr refineRequest) (panicCalls (ScvU32 1799))
        unreachableRpc) = Some (JStr ''COOLDOWN_ACTIVE'')
     \<and> cooldownOf (POST exampleConfig exampleSdk (Inr refineRequest) (panicCalls (ScvU32 1799))
          unreachableRpc) = Some (JNum 1799)"
    using panic_reported_as_cooldown [OF panicCalls_reach panicCalls_fields(4)
        panicSimulation_matches w panicCalls_answer(2), of unreachableRpc]
    by (simp add: panicCalls_fields example_reads)
  from u64 u32 panicCalls_reach panicSimulation_matches panicCalls_answer show ?thesis
    by simp
qed


section \<open>The stats route and the stats fetch\<close>

















lemma fetch_success:
  assumes "endpoint (requests st) = FetchResult True (Some d)"
  shows "fetchContractStats retries delay endpoint st
           = st\<lparr>statsLoading := False, statsError := None, requests := requests st + 1,
                contractStats := Some d\<rparr>"
  using assms by (subst fetchContractStats.simps) (simp add: Let_def)

lemma fetch_retry:
  assumes "failed (endpoint (requests st))" and "0 < retries"
  shows "fetchContractStats retries delay endpoint st
           = fetchContractStats (retries - 1) (delay * 2) endpoint
               (st\<lparr>statsLoading := True, statsError := None, requests := requests st + 1,
                   timeouts := timeouts st @ [delay]\<rparr>)"
  using assms
  by (subst fetchContractStats.simps)
     (simp add: failed_def Let_def split: fetch_outcome.splits bool.splits option.splits)

lemma fetch_give_up:
  assumes "failed (endpoint (requests st))" and "\<not> 0 < retries"
  shows "fetchContractStats retries delay endpoint st
           = st\<lparr>statsLoading := False,
                statsError := Some ''Failed to load contract statistics after multiple attempts'',
                requests := requests st + 1\<rparr>"
  using assms
  by (subst fetchContractStats.simps)
     (simp add: failed_def Let_def split: fetch_outcome.splits bool.splits option.splits)

text \<open>
  Claim C4. Started with its defaults (3 retries, 1000 ms), the stats fetch sends
  up to four requests. When all four fail it has scheduled exactly three retries,
  after 1000, 2000 and 4000 ms, and ends with \<open>statsError\<close> set and \<open>statsLoading\<close>
  false. When the request number \<open>j\<close> (from 0) is the first to succeed, it has
  scheduled only the first \<open>j\<close> of those delays and sends nothing after it, and ends
  with the statistics, no error and \<open>statsLoading\<close> false.
\<close>

theorem stats_fetch_retries:
  "(failed (endpoint 0) \<and> failed (endpoint 1) \<and> failed (endpoint 2) \<and> failed (endpoint 3) \<longrightarrow>
      timeouts (fetchContractStats 3 1000 endpoint statsInitial) = [1000, 2000, 4000]
      \<and> requests (fetchContractStats 3 1000 endpoint statsInitial) = 4
      \<and> statsError (fetchContractStats 3 1000 endpoint statsInitial)
          = Some ''Failed to load contract statistics after multiple attempts''
      \<and> statsLoading (fetchContractStats 3 1000 endpoint statsInitial) = False
      \<and> contractStats (fetchContractStats 3 1000 endpoint statsInitial) = None)
   \<and> (j \<le> 3 \<and> (\<forall>k < j. failed (endpoint k)) \<and> endpoint j = FetchResult True (Some d) \<longrightarrow>
        timeouts (fetchContractStats 3 1000 endpoint statsInitial) = take j [1000, 2000, 4000]
        \<and> requests (fetchContractStats 3 1000 endpoint statsInitial) = j + 1
        \<and> statsError (fetchContractStats 3 1000 endpoint statsInitial) = None
        \<and> statsLoading (fetchContractStats 3 1000 endpoint statsInitial) = False
        \<and> contractStats (fetchContractStats 3 1000 endpoint statsInitial) = Some d)"
proof (intro conjI impI)
  assume a: "failed (endpoint 0) \<and> failed (endpoint 1) \<and> failed (endpoint 2) \<and> failed (endpoint 3)"
  then have "fetchContractStats 3 1000 endpoint statsInitial
      = statsInitial\<lparr>statsLoading := False,
          statsError := Some ''Failed to load contract statistics after multiple attempts'',
          requests := 4, timeouts := [1000, 2000, 4000]\<rparr>"
    by (simp add: fetch_retry fetch_give_up statsInitial_def eval_nat_numeral)
  then show "timeouts (fetchContractStats 3 1000 endpoint statsInitial) = [1000, 2000, 4000]"
    "requests (fetchContractStats 3 1000 endpoint statsInitial) = 4"
    "statsError (fetchContractStats 3 1000 endpoint statsInitial)
       = Some ''Failed to load contract statistics after multiple attempts''"
    "statsLoading (fetchContractStats 3 1000 endpoint statsInitial) = False"
    "contractStats (fetchContractStats 3 1000 endpoint statsInitial) = None"
    by (simp_all add: statsInitial_def)
next
  assume b: "j \<le> 3 \<and> (\<forall>k < j. failed (endpoint k)) \<and> endpoint j = FetchResult True (Some d)"
  then consider "j = 0" | "j = 1" | "j = 2" | "j = 3" by linarith
  then have "fetchContractStats 3 1000 endpoint statsInitial
      = statsInitial\<lparr>statsLoading := False, statsError := None, requests := j + 1,
          timeouts := take j [1000, 2000, 4000], contractStats := Some d\<rparr>"
  proof cases
    case 1
    with b show ?thesis by (simp add: fetch_success statsInitial_def)
  next
    case 2
    with b have "failed (endpoint 0)" "endpoint 1 = FetchResult True (Some d)" by simp_all
    with 2 show ?thesis by (simp add: fetch_retry fetch_success statsInitial_def eval_nat_numeral)
  next
    case 3
    with b have "failed (endpoint 0)" "failed (endpoint 1)"
      "endpoint 2 = FetchResult True (Some d)" by simp_all
    with 3 show ?thesis
      by (simp add: fetch_retry fetch_success statsInitial_def eval_nat_numeral)
  next
    case 4
    with b have "failed (endpoint 0)" "failed (endpoint 1)" "failed (endpoint 2)"
      "endpoint 3 = FetchResult True (Some d)" by simp_all
    with 4 show ?thesis
      by (simp add: fetch_retry fetch_success statsInitial_def eval_nat_numeral)
  qed
  then show "timeouts (fetchContractStats 3 1000 endpoint statsInitial) = take j [1000, 2000, 4000]"
    "requests (fetchContractStats 3 1000 endpoint statsInitial) = j + 1"
    "statsError (fetchContractStats 3 1000 endpoint statsInitial) = None"
    "statsLoading (fetchContractStats 3 1000 endpoint statsInitial) = False"
    "contractStats (fetchContractStats 3 1000 endpoint statsInitial) = Some d"
    by simp_all
qed

theorem stats_fetch_retries_witness:
  "failed (failingEndpoint 0) \<and> failed (failingEndpoint 1) \<and> failed (failingEndpoint 2)
   \<and> failed (failingEndpoint 3)
   \<and> timeouts (fetchContractStats 3 1000 failingEndpoint statsInitial) = [1000, 2000, 4000]
   \<and> requests (fetchContractStats 3 1000 failingEndpoint statsInitial) = 4
   \<and> statsLoading (fetchContractStats 3 1000 failingEndpoint statsInitial) = False
   \<and> failed (recoveringEndpoint 0) \<and> failed (recoveringEndpoint 1)
   \<and> recoveringEndpoint 2 = FetchResult True (Some exampleStats)
   \<and> timeouts (fetchContractStats 3 1000 recoveringEndpoint statsInitial) = [1000, 2000]
   \<and> requests (fetchContractStats 3 1000 recoveringEndpoint statsInitial) = 3
   \<and> contractStats (fetchContractStats 3 1000 recoveringEndpoint statsInitial) = Some exampleStats"
proof -
  have f: "failed (failingEndpoint 0)" "failed (failingEndpoint 1)" "failed (failingEndpoint 2)"
    "failed (failingEndpoint 3)"
    by (simp_all add: failed_def failingEndpoint_def)
  have r: "failed (recoveringEndpoint 0)" "failed (recoveringEndpoint 1)"
    "recoveringEndpoint 2 = FetchResult True (Some exampleStats)"
    by (simp_all add: failed_def recoveringEndpoint_def)
  from r have q: "\<forall>k < 2. failed (recoveringEndpoint k)"
    by (auto simp: less_Suc_eq numeral_2_eq_2)
  show ?thesis
    using stats_fetch_retries [of failingEndpoint 0 exampleStats]
      stats_fetch_retries [of recoveringEndpoint 2 exampleStats] f r q
    by simp
qed


end
